theory Spec2Isabelle
  imports Main "HOL-Library.Sublist" "HOL-Library.Multiset"
begin

section \<open>JavaScript strings and arrays\<close>

text \<open>
  A string of the model is a list of characters that stands for a JavaScript string in an
  encoding that keeps every ASCII character a single character (UTF-8). Comparing,
  concatenating, splitting at an ASCII separator and searching for an ASCII text give the
  same results on it as on the JavaScript string, and are modelled below. What depends on
  the Unicode tables of the platform, on its UTF-16 code units or on its number format is
  taken from the platform: \<open>toLowerCase\<close>, the \<open>length\<close> of a string, \<open>trim\<close>,
  \<open>search(/\S/)\<close> (the index of the first character that is not white space, or -1),
  and the text of a number in a template literal. Every definition that uses one of them
  takes the platform as its first argument.
\<close>

record platform =
  toLowerCase :: "string \<Rightarrow> string"
  strLength :: "string \<Rightarrow> nat"
  trim :: "string \<Rightarrow> string"
  searchNonSpace :: "string \<Rightarrow> int"
  numberToString :: "int \<Rightarrow> string"

text \<open>
  On ASCII strings and on integers of ordinary size the five functions are the following
  ones; the examples of this theory use them.
\<close>

definition asciiLowerCase_char :: "char \<Rightarrow> char" where
  "asciiLowerCase_char c =
     (if (65::nat) \<le> of_char c \<and> of_char c \<le> (90::nat) then char_of (of_char c + (32::nat)) else c)"

definition asciiLowerCase :: "string \<Rightarrow> string" where
  "asciiLowerCase s = map asciiLowerCase_char s"

definition isSpace :: "char \<Rightarrow> bool" where
  "isSpace c = (c = CHR '' '' \<or> c = CHR 0x09 \<or> c = CHR 0x0A \<or> c = CHR 0x0B \<or> c = CHR 0x0C \<or> c = CHR 0x0D)"

definition asciiTrim :: "string \<Rightarrow> string" where
  "asciiTrim s = rev (dropWhile isSpace (rev (dropWhile isSpace s)))"

definition asciiSearchNonSpace :: "string \<Rightarrow> int" where
  "asciiSearchNonSpace s = (if \<forall>c \<in> set s. isSpace c then - 1 else int (length (takeWhile isSpace s)))"

definition digit :: "nat \<Rightarrow> char" where
  "digit d = char_of (48 + d)"

function decimal :: "nat \<Rightarrow> string" where
  "decimal n = (if n < 10 then [digit n] else decimal (n div 10) @ [digit (n mod 10)])"
  by pat_completeness auto
termination
  by (relation "measure (\<lambda>n. n)") auto

declare decimal.simps [simp del]

definition decimalNumber :: "int \<Rightarrow> string" where
  "decimalNumber n = (if n < 0 then ''-'' @ decimal (nat (- n)) else decimal (nat n))"

definition asciiPlatform :: platform where
  "asciiPlatform =
     \<lparr>toLowerCase = asciiLowerCase, strLength = length,
      trim = asciiTrim, searchNonSpace = asciiSearchNonSpace,
      numberToString = decimalNumber\<rparr>"

definition startsWith :: "string \<Rightarrow> string \<Rightarrow> bool" where
  "startsWith s p = (take (length p) s = p)"

text \<open>\<open>s.includes(p)\<close>: \<open>p\<close> occurs in \<open>s\<close> as a contiguous substring.\<close>

fun str_includes :: "string \<Rightarrow> string \<Rightarrow> bool" where
  "str_includes [] p = (p = [])"
| "str_includes (c # cs) p = (startsWith (c # cs) p \<or> str_includes cs p)"

text \<open>\<open>s.split(sep)\<close> for a one-character separator; the result is never empty.\<close>

fun split :: "char \<Rightarrow> string \<Rightarrow> string list" where
  "split sep [] = [[]]"
| "split sep (c # cs) =
     (if c = sep then [] # split sep cs
      else (case split sep cs of [] \<Rightarrow> [[c]] | p # ps \<Rightarrow> (c # p) # ps))"

text \<open>\<open>xs.pop()\<close> as a value: the last element, \<open>undefined\<close> on the empty array.\<close>

definition pop :: "'a list \<Rightarrow> 'a option" where
  "pop xs = (if xs = [] then None else Some (last xs))"

text \<open>
  \<open>xs.slice(0, e)\<close> for an integer \<open>e\<close>: a negative end counts from the end of
  the array.
\<close>

definition slice0 :: "int \<Rightarrow> 'a list \<Rightarrow> 'a list" where
  "slice0 e xs = (if e < 0 then take (nat (int (length xs) + e)) xs else take (nat e) xs)"

section \<open>Data model\<close>

datatype element_type =
  Class | Function | AsyncFunction | Method | Interface | Enum | Variable | Import

text \<open>
  \<open>CodeElement\<close> of treesitter-analyzer.ts, without the two optional fields that the
  source never sets (\<open>description\<close>, \<open>modifiers\<close>). \<open>children\<close> is optional
  in the source; every reader there treats the absent field as the empty array
  (\<open>c.children?.length || 0\<close>, \<open>e.children || []\<close>), and so does the model: the
  absent field is \<open>[]\<close>. (\<open>type\<close>, \<open>file\<close> and \<open>line\<close> are \<open>etype\<close>,
  \<open>efile\<close> and \<open>eline\<close> here.)
\<close>

datatype CodeElement =
  CodeElement (etype: element_type) (name: string) (efile: string)
    (eline: nat) (endLine: nat) (children: "CodeElement list")

record FileAnalysis =
  fa_file :: string
  language :: string
  elements :: "CodeElement list"
  fa_imports :: "string list"
  fa_exports :: "string list"

record ProjectStructure =
  rootPath :: string
  files :: "FileAnalysis list"
  entryPoints :: "string list"
  dependencies :: "(string \<times> string list) list"

record position =
  pline :: int
  character :: int

record selection_range =
  sel_start :: position
  sel_end :: position

text \<open>
  \<open>GeneratedTourStep\<close> of tour-generator.ts. The steps come from parsed service output,
  so a field the interface declares may be missing at run time (the source reads
  \<open>step.title?.includes\<close> and \<open>!steps[0].file\<close>): \<open>None\<close> is \<open>undefined\<close>.
  The validator builds each \<open>CodeTourStep\<close> from exactly these five fields, so the same
  record serves for it. (\<open>file\<close> is a reserved word of the prover: the field is
  \<open>sfile\<close> in a step and \<open>fa_file\<close> in a file analysis.)
\<close>

record GeneratedTourStep =
  title :: "string option"
  sfile :: "string option"
  line :: "int option"
  description :: "string option"
  selection :: "selection_range option"

type_synonym CodeTourStep = GeneratedTourStep

record TourGenerationOptions =
  maxSteps :: "int option"

section \<open>The validator: tour-generator.ts\<close>

text \<open>What \<open>validateAndRefineSteps\<close> writes to the console, in order.\<close>

datatype log_event =
  Mapped string string
  | FileNotFound "string option"
  | WelcomeDetected
  | ErrorValidating

text \<open>
  \<open>findSimilarFile\<close>: the first analysed file whose lower-cased base name equals the
  target's; \<open>None\<close> is \<open>null\<close>.
\<close>

definition baseNameLower :: "platform \<Rightarrow> string \<Rightarrow> string" where
  "baseNameLower pf p = (case pop (split CHR ''/'' p) of None \<Rightarrow> [] | Some b \<Rightarrow> toLowerCase pf b)"

fun findSimilarFile_loop :: "platform \<Rightarrow> string \<Rightarrow> FileAnalysis list \<Rightarrow> string option" where
  "findSimilarFile_loop pf targetName [] = None"
| "findSimilarFile_loop pf targetName (f # fs) =
     (if baseNameLower pf (fa_file f) = targetName then Some (fa_file f)
      else findSimilarFile_loop pf targetName fs)"

definition findSimilarFile :: "platform \<Rightarrow> string \<Rightarrow> FileAnalysis list \<Rightarrow> string option" where
  "findSimilarFile pf targetFile fs = findSimilarFile_loop pf (baseNameLower pf targetFile) fs"

text \<open>\<open>i === 0 && step.title?.includes('Welcome')\<close>, read as a condition.\<close>

definition hasWelcomeMarker :: "GeneratedTourStep \<Rightarrow> bool" where
  "hasWelcomeMarker step =
     (case title step of None \<Rightarrow> False | Some t \<Rightarrow> str_includes t ''Welcome'')"

definition isWelcomeStep :: "nat \<Rightarrow> GeneratedTourStep \<Rightarrow> bool" where
  "isWelcomeStep i step = (i = 0 \<and> hasWelcomeMarker step)"

text \<open>
  The first half of the loop body. \<open>Proceed\<close> carries the step, whose \<open>file\<close> may
  have been rewritten; \<open>ContinueLoop\<close> is the \<open>continue\<close>; \<open>Thrown\<close> is the
  \<open>TypeError\<close> of \<open>targetFile.split\<close> on a missing \<open>file\<close>, which the
  \<open>catch\<close> of the loop body receives.
\<close>

datatype file_check = Proceed GeneratedTourStep | ContinueLoop | Thrown

definition checkFile ::
  "platform \<Rightarrow> FileAnalysis list \<Rightarrow> nat \<Rightarrow> GeneratedTourStep \<Rightarrow> file_check \<times> log_event list" where
  "checkFile pf fs i step =
     (if \<not> isWelcomeStep i step then
        (let fileExists = (\<exists>f \<in> set fs. Some (fa_file f) = sfile step) in
         if \<not> fileExists then
           (case sfile step of
              None \<Rightarrow> (Thrown, [])
            | Some targetFile \<Rightarrow>
                (case findSimilarFile pf targetFile fs of
                   None \<Rightarrow> (ContinueLoop, [FileNotFound (sfile step)])
                 | Some similarFile \<Rightarrow>
                     if similarFile \<noteq> [] then
                       (Proceed (step\<lparr>sfile := Some similarFile\<rparr>), [Mapped targetFile similarFile])
                     else (ContinueLoop, [FileNotFound (sfile step)])))
         else (Proceed step, []))
      else (Proceed step, [WelcomeDetected]))"

text \<open>
  The line check: \<open>if (step.line)\<close> is false for a missing line and for 0; the clamp
  is applied only when the step's file is found among the analysed files.
\<close>

definition validateLine :: "FileAnalysis list \<Rightarrow> GeneratedTourStep \<Rightarrow> GeneratedTourStep" where
  "validateLine fs step =
     (case line step of
        None \<Rightarrow> step
      | Some l \<Rightarrow>
          if l = 0 then step
          else (case find (\<lambda>f. Some (fa_file f) = sfile step) fs of
                  None \<Rightarrow> step
                | Some fileAnalysis \<Rightarrow> if l < 1 then step\<lparr>line := Some 1\<rparr> else step))"

text \<open>
  The conversion: \<open>title\<close>, \<open>file\<close> and \<open>description\<close> are copied, \<open>line\<close> and
  \<open>selection\<close> only when they are truthy.
\<close>

definition toCodeTourStep :: "GeneratedTourStep \<Rightarrow> CodeTourStep" where
  "toCodeTourStep step =
     \<lparr>title = title step, sfile = sfile step,
      line = (case line step of None \<Rightarrow> None | Some l \<Rightarrow> if l = 0 then None else Some l),
      description = description step,
      selection = selection step\<rparr>"

text \<open>One iteration of the loop on the pair (validatedSteps, console).\<close>

definition validateStep ::
  "platform \<Rightarrow> FileAnalysis list \<Rightarrow> nat \<Rightarrow> GeneratedTourStep \<Rightarrow>
   CodeTourStep list \<times> log_event list \<Rightarrow> CodeTourStep list \<times> log_event list" where
  "validateStep pf fs i step st =
     (case checkFile pf fs i step of
        (Thrown, out) \<Rightarrow> (fst st, snd st @ out @ [ErrorValidating])
      | (ContinueLoop, out) \<Rightarrow> (fst st, snd st @ out)
      | (Proceed step', out) \<Rightarrow>
          (fst st @ [toCodeTourStep (validateLine fs step')], snd st @ out))"

text \<open>
  The loop \<open>for (i = 0; i < steps.slice(0, maxSteps).length; i++)\<close> reads \<open>steps[i]\<close>;
  the slice is a prefix of \<open>steps\<close>, so the loop visits the elements of the slice with
  their indices.
\<close>

fun validateLoop ::
  "platform \<Rightarrow> FileAnalysis list \<Rightarrow> nat \<Rightarrow> GeneratedTourStep list \<Rightarrow>
   CodeTourStep list \<times> log_event list \<Rightarrow> CodeTourStep list \<times> log_event list" where
  "validateLoop pf fs i [] st = st"
| "validateLoop pf fs i (step # rest) st = validateLoop pf fs (Suc i) rest (validateStep pf fs i step st)"

text \<open>\<open>options.maxSteps || 20\<close>: a missing value and 0 give 20.\<close>

definition effectiveMaxSteps :: "TourGenerationOptions \<Rightarrow> int" where
  "effectiveMaxSteps options =
     (case maxSteps options of None \<Rightarrow> 20 | Some m \<Rightarrow> if m = 0 then 20 else m)"

definition processedSteps :: "GeneratedTourStep list \<Rightarrow> TourGenerationOptions \<Rightarrow> GeneratedTourStep list" where
  "processedSteps steps options = slice0 (effectiveMaxSteps options) steps"

definition validateAndRefineSteps_run ::
  "platform \<Rightarrow> GeneratedTourStep list \<Rightarrow> ProjectStructure \<Rightarrow> TourGenerationOptions \<Rightarrow>
   CodeTourStep list \<times> log_event list" where
  "validateAndRefineSteps_run pf steps struct options =
     validateLoop pf (files struct) 0 (processedSteps steps options) ([], [])"

definition validateAndRefineSteps ::
  "platform \<Rightarrow> GeneratedTourStep list \<Rightarrow> ProjectStructure \<Rightarrow> TourGenerationOptions \<Rightarrow> CodeTourStep list" where
  "validateAndRefineSteps pf steps struct options =
     fst (validateAndRefineSteps_run pf steps struct options)"

text \<open>
  What one iteration contributes to the output, and the iterations that contribute:
  the index, the input step and the emitted step of each, in loop order.
\<close>

definition stepResult :: "platform \<Rightarrow> FileAnalysis list \<Rightarrow> nat \<Rightarrow> GeneratedTourStep \<Rightarrow> CodeTourStep option" where
  "stepResult pf fs i step =
     (case fst (checkFile pf fs i step) of
        Proceed step' \<Rightarrow> Some (toCodeTourStep (validateLine fs step'))
      | ContinueLoop \<Rightarrow> None
      | Thrown \<Rightarrow> None)"

fun survivors ::
  "platform \<Rightarrow> FileAnalysis list \<Rightarrow> nat \<Rightarrow> GeneratedTourStep list \<Rightarrow> (nat \<times> GeneratedTourStep \<times> CodeTourStep) list" where
  "survivors pf fs i [] = []"
| "survivors pf fs i (step # rest) =
     (case stepResult pf fs i step of
        None \<Rightarrow> survivors pf fs (Suc i) rest
      | Some t \<Rightarrow> (i, step, t) # survivors pf fs (Suc i) rest)"

definition knownFiles :: "ProjectStructure \<Rightarrow> string option set" where
  "knownFiles struct = (\<lambda>f. Some (fa_file f)) ` set (files struct)"

text \<open>
  The specification's words for the repair: a same-basename match against the known
  files, case-insensitive.
\<close>

definition sameBasenameMatch :: "platform \<Rightarrow> ProjectStructure \<Rightarrow> string \<Rightarrow> string option" where
  "sameBasenameMatch pf struct target =
     find (\<lambda>p. baseNameLower pf p = baseNameLower pf target) (map fa_file (files struct))"


subsection \<open>A small project and a generated step list\<close>

definition ex_file :: "string \<Rightarrow> FileAnalysis" where
  "ex_file p = \<lparr>fa_file = p, language = ''typescript'', elements = [], fa_imports = [], fa_exports = []\<rparr>"

definition ex_structure :: ProjectStructure where
  "ex_structure = \<lparr>rootPath = ''/repo'', files = [ex_file ''src/Real.ts'', ex_file ''src/util.ts''],
     entryPoints = [], dependencies = []\<rparr>"

definition ex_step :: "string \<Rightarrow> string \<Rightarrow> int \<Rightarrow> GeneratedTourStep" where
  "ex_step t f l = \<lparr>title = Some t, sfile = Some f, line = Some l, description = Some ''text'', selection = None\<rparr>"

definition ex_steps :: "GeneratedTourStep list" where
  "ex_steps = [ex_step ''Welcome to the project'' ''README.md'' 1,
               ex_step ''Real'' ''lib/real.ts'' (- 4),
               ex_step ''Gone'' ''missing.ts'' 3,
               ex_step ''Util'' ''src/util.ts'' 7]"

definition ex_options :: TourGenerationOptions where
  "ex_options = \<lparr>maxSteps = None\<rparr>"

section \<open>The batch generator: batch-generator.ts\<close>

subsection \<open>Values of the generation service\<close>

text \<open>
  What \<open>JSON.parse\<close> returns, as JavaScript values: an array is an object too and can be
  given properties after parsing, so \<open>JArray\<close> carries its elements and its own
  properties (none after parsing). Properties are kept in insertion order.
\<close>

datatype jsvalue =
  JNull
  | JBool bool
  | JNum int
  | JStr string
  | JArray "jsvalue list" "(string \<times> jsvalue) list"
  | JObject "(string \<times> jsvalue) list"

text \<open>
  \<open>JSON.parse\<close> is a built-in of the platform. The functions below take it as the
  parameter \<open>parse\<close>: \<open>None\<close> is the \<open>SyntaxError\<close> it throws.
\<close>

type_synonym json_parser = "string \<Rightarrow> jsvalue option"

text \<open>
  The outcome of \<open>LLMService.generateCompletion\<close>: the promise rejects with an
  \<open>Error\<close> (its message), or resolves with a response whose \<open>content\<close> is a
  string, or is missing (\<open>None\<close>).
\<close>

datatype llm_outcome = Rejects string | Resolves "string option"

datatype parse_error = TypeError | NoJsonArray | SyntaxError | NotAnArray

subsection \<open>parseStepsFromResponse\<close>

text \<open>
  \<open>response.match(/\[[\s\S]*\]/)\<close>: the regular expression matches at the first
  \<open>[\<close> of the text, and its greedy middle part runs to the last \<open>]\<close> after it.
  \<open>None\<close> is the \<open>null\<close> of no match.
\<close>

definition upToLast :: "char \<Rightarrow> string \<Rightarrow> string" where
  "upToLast c s = rev (dropWhile (\<lambda>x. x \<noteq> c) (rev s))"

definition jsonMatch :: "string \<Rightarrow> string option" where
  "jsonMatch response =
     (case dropWhile (\<lambda>x. x \<noteq> CHR ''['') response of
        [] \<Rightarrow> None
      | b # rest \<Rightarrow> if CHR '']'' \<in> set rest then Some (b # upToLast CHR '']'' rest) else None)"

text \<open>The body of the \<open>try\<close>, with each \<open>throw\<close> as an error value.\<close>

definition parseStepsFromResponse_try :: "json_parser \<Rightarrow> string option \<Rightarrow> parse_error + jsvalue list" where
  "parseStepsFromResponse_try parse response =
     (case response of
        None \<Rightarrow> Inl TypeError
      | Some text \<Rightarrow>
          (case jsonMatch text of
             None \<Rightarrow> Inl NoJsonArray
           | Some m \<Rightarrow>
               (case parse m of
                  None \<Rightarrow> Inl SyntaxError
                | Some (JArray steps props) \<Rightarrow> Inr steps
                | Some other \<Rightarrow> Inl NotAnArray)))"

text \<open>The \<open>catch\<close> logs the error and returns the empty array.\<close>

definition parseStepsFromResponse :: "json_parser \<Rightarrow> string option \<Rightarrow> jsvalue list" where
  "parseStepsFromResponse parse response =
     (case parseStepsFromResponse_try parse response of Inl err \<Rightarrow> [] | Inr steps \<Rightarrow> steps)"

text \<open>
  The specification's words for the extraction: the first syntactically balanced array
  literal of the text, found by counting brackets from the first \<open>[\<close>.
\<close>

fun balancedPrefix :: "nat \<Rightarrow> string \<Rightarrow> string option" where
  "balancedPrefix depth [] = None"
| "balancedPrefix depth (c # cs) =
     (if c = CHR ''['' then map_option ((#) c) (balancedPrefix (Suc depth) cs)
      else if c = CHR '']'' then
        (if depth \<le> 1 then Some [c] else map_option ((#) c) (balancedPrefix (depth - 1) cs))
      else map_option ((#) c) (balancedPrefix depth cs))"

definition firstBalancedArray :: "string \<Rightarrow> string option" where
  "firstBalancedArray text = balancedPrefix 0 (dropWhile (\<lambda>x. x \<noteq> CHR ''['') text)"

subsection \<open>One batch\<close>

text \<open>
  \<open>generateBatchSteps\<close> awaits the service and parses the content; its \<open>catch\<close>
  turns a rejection into the empty array, so its promise never rejects.
\<close>

definition generateBatchSteps :: "json_parser \<Rightarrow> llm_outcome \<Rightarrow> jsvalue list" where
  "generateBatchSteps parse outcome =
     (case outcome of
        Rejects message \<Rightarrow> []
      | Resolves content \<Rightarrow> parseStepsFromResponse parse content)"

text \<open>
  \<open>Promise.race\<close> of the request against the timer of \<open>TIMEOUT_MS\<close>: the race is
  settled by whichever settles first. Which one that is belongs to the environment: the
  timer fires first (also when the request never settles), or the request settles first with
  the outcome of the service.
\<close>

definition TIMEOUT_MS :: nat where
  "TIMEOUT_MS = 45000"

datatype batch_event = TimerFiresFirst | RequestSettlesFirst llm_outcome

datatype batch_error = Timeout nat

definition generateBatchWithTimeout :: "json_parser \<Rightarrow> batch_event \<Rightarrow> batch_error + jsvalue list" where
  "generateBatchWithTimeout parse ev =
     (case ev of
        TimerFiresFirst \<Rightarrow> Inl (Timeout (TIMEOUT_MS div 1000))
      | RequestSettlesFirst outcome \<Rightarrow> Inr (generateBatchSteps parse outcome))"

text \<open>
  The function mapped over a batch group in \<open>generateTourInBatches\<close>: its \<open>catch\<close>
  returns the empty array instead of failing.
\<close>

definition runBatch :: "json_parser \<Rightarrow> batch_event \<Rightarrow> jsvalue list" where
  "runBatch parse ev =
     (case generateBatchWithTimeout parse ev of Inl err \<Rightarrow> [] | Inr batchSteps \<Rightarrow> batchSteps)"

subsection \<open>Filtering and batching the files\<close>

definition filterImportantFiles :: "platform \<Rightarrow> FileAnalysis list \<Rightarrow> FileAnalysis list" where
  "filterImportantFiles pf fs =
     filter (\<lambda>f.
       let fileName = toLowerCase pf (fa_file f) in
       if str_includes fileName ''.test.'' \<or> str_includes fileName ''.spec.''
          \<or> str_includes fileName ''__tests__'' \<or> str_includes fileName ''test/''
          \<or> str_includes fileName ''tests/'' \<or> str_includes fileName ''.config.''
          \<or> str_includes fileName ''config/'' \<or> str_includes fileName ''.generated.''
          \<or> str_includes fileName ''node_modules'' \<or> str_includes fileName ''dist/''
          \<or> str_includes fileName ''build/'' \<or> str_includes fileName ''.min.''
          \<or> str_includes fileName ''.d.ts''
       then False
       else if length (elements f) = 0 then False
       else True) fs"

definition getFileImportance :: "platform \<Rightarrow> FileAnalysis \<Rightarrow> int" where
  "getFileImportance pf f =
     (let fileName = toLowerCase pf (fa_file f);
          s1 = (if str_includes fileName ''index'' \<or> str_includes fileName ''main''
                   \<or> str_includes fileName ''app'' then 100 else 0);
          s2 = s1 + (if str_includes fileName ''src/'' \<or> str_includes fileName ''lib/'' then 50 else 0);
          s3 = s2 + int (length (elements f)) * 5;
          s4 = s3 - (if str_includes fileName ''test'' \<or> str_includes fileName ''spec'' then 50 else 0)
      in s4)"

definition BATCH_SIZE :: nat where
  "BATCH_SIZE = 4"

definition CONCURRENT_BATCHES :: nat where
  "CONCURRENT_BATCHES = 3"

text \<open>\<open>xs.slice(a, b)\<close> for \<open>0 \<le> a \<le> b\<close>.\<close>

definition slice :: "nat \<Rightarrow> nat \<Rightarrow> 'a list \<Rightarrow> 'a list" where
  "slice a b xs = take (b - a) (drop a xs)"

function batchesFrom :: "nat \<Rightarrow> 'a list \<Rightarrow> 'a list list" where
  "batchesFrom i sortedFiles =
     (if i < length sortedFiles
      then slice i (i + BATCH_SIZE) sortedFiles # batchesFrom (i + BATCH_SIZE) sortedFiles
      else [])"
  by pat_completeness auto
termination
  by (relation "measure (\<lambda>(i, sortedFiles). length sortedFiles - i)") (auto simp: BATCH_SIZE_def)

declare batchesFrom.simps [simp del]

text \<open>
  The comparator \<open>bScore - aScore\<close> sorts by descending score; \<open>Array.prototype.sort\<close>
  is stable, as is \<open>sort_key\<close>.
\<close>

definition createFileBatches :: "platform \<Rightarrow> FileAnalysis list \<Rightarrow> FileAnalysis list list" where
  "createFileBatches pf fs = batchesFrom 0 (sort_key (\<lambda>f. - getFileImportance pf f) fs)"

subsection \<open>The welcome page\<close>

text \<open>Reading and writing a property of a value that is not \<open>null\<close>.\<close>

fun getProp :: "jsvalue \<Rightarrow> string \<Rightarrow> jsvalue option" where
  "getProp (JObject props) k = map_of props k"
| "getProp (JArray xs props) k = map_of props k"
| "getProp v k = None"

fun truthy :: "jsvalue option \<Rightarrow> bool" where
  "truthy None = False"
| "truthy (Some JNull) = False"
| "truthy (Some (JBool b)) = b"
| "truthy (Some (JNum n)) = (n \<noteq> 0)"
| "truthy (Some (JStr s)) = (s \<noteq> [])"
| "truthy (Some (JArray xs props)) = True"
| "truthy (Some (JObject props)) = True"

text \<open>An existing property keeps its place, a new one goes to the end.\<close>

fun putProp :: "string \<Rightarrow> jsvalue \<Rightarrow> (string \<times> jsvalue) list \<Rightarrow> (string \<times> jsvalue) list" where
  "putProp k v [] = [(k, v)]"
| "putProp k v (p # props) = (if fst p = k then (k, v) # props else p # putProp k v props)"

text \<open>
  \<open>x.k = v\<close> in strict code: on a primitive value the assignment throws a
  \<open>TypeError\<close> (\<open>None\<close>).
\<close>

fun setProp :: "jsvalue \<Rightarrow> string \<Rightarrow> jsvalue \<Rightarrow> jsvalue option" where
  "setProp (JObject props) k v = Some (JObject (putProp k v props))"
| "setProp (JArray xs props) k v = Some (JArray xs (putProp k v props))"
| "setProp x k v = None"

text \<open>
  The call \<open>await this.llmService.generateCompletion(...)\<close> of the welcome page is not
  raced against a timer: the promise settles with an outcome, or it never settles.
\<close>

datatype service_call = NeverSettles | Settles llm_outcome

text \<open>
  What \<open>generateWelcomePage\<close> finds around it: the name of the workspace, the cleaned
  text of README.md when the document could be opened, the value of
  \<open>packageJson.description || ""\<close> (the empty string when package.json could not be
  read), and what becomes of the call to the service.
\<close>

record welcome_env =
  workspaceName :: "string option"
  readmeContent :: "string option"
  packageDescription :: jsvalue
  welcomeService :: service_call

definition welcomeName :: "welcome_env \<Rightarrow> string" where
  "welcomeName env =
     (case workspaceName env of None \<Rightarrow> ''this project'' | Some n \<Rightarrow> if n = [] then ''this project'' else n)"

text \<open>
  \<open>structure.files[0]?.file || "README.md"\<close>, replaced by \<open>"README.md"\<close> once the
  README has been read.
\<close>

definition welcomeFile :: "ProjectStructure \<Rightarrow> welcome_env \<Rightarrow> string" where
  "welcomeFile struct env =
     (case readmeContent env of
        Some text \<Rightarrow> ''README.md''
      | None \<Rightarrow>
          (case files struct of
             [] \<Rightarrow> ''README.md''
           | f # fs \<Rightarrow> if fa_file f = [] then ''README.md'' else fa_file f))"

text \<open>
  The conversion of a value to a string in a template literal. It throws a
  \<open>TypeError\<close> for an object whose own property \<open>toString\<close> hides the inherited
  method (a parsed value is never callable, and the inherited \<open>valueOf\<close> returns the
  object itself). An array is converted by \<open>join\<close>, which converts every element
  that is not \<open>null\<close>; with an own property \<open>join\<close> it is converted like a plain
  object.
\<close>

fun toStringThrows :: "jsvalue \<Rightarrow> bool" where
  "toStringThrows JNull = False"
| "toStringThrows (JBool b) = False"
| "toStringThrows (JNum n) = False"
| "toStringThrows (JStr s) = False"
| "toStringThrows (JObject props) = (''toString'' \<in> fst ` set props)"
| "toStringThrows (JArray xs props) =
     (''toString'' \<in> fst ` set props
      \<or> (''join'' \<notin> fst ` set props \<and> (\<exists>x \<in> set xs. x \<noteq> JNull \<and> toStringThrows x)))"

text \<open>\<open>${x}\<close> for a property \<open>x\<close> that may be missing (\<open>undefined\<close> converts).\<close>

definition convThrows :: "jsvalue option \<Rightarrow> bool" where
  "convThrows x = (case x of None \<Rightarrow> False | Some v \<Rightarrow> toStringThrows v)"

text \<open>\<open>${x || '...'}\<close>: only a truthy \<open>x\<close> is converted.\<close>

definition convOrThrows :: "jsvalue option \<Rightarrow> bool" where
  "convOrThrows x = (truthy x \<and> convThrows x)"

fun join :: "string \<Rightarrow> string list \<Rightarrow> string" where
  "join sep [] = []"
| "join sep [x] = x"
| "join sep (x # y # ys) = x @ sep @ join sep (y # ys)"

text \<open>The text that the conversion gives when it does not throw.\<close>

fun toStringJS :: "platform \<Rightarrow> jsvalue \<Rightarrow> string" where
  "toStringJS pf JNull = ''null''"
| "toStringJS pf (JBool b) = (if b then ''true'' else ''false'')"
| "toStringJS pf (JNum n) = numberToString pf n"
| "toStringJS pf (JStr s) = s"
| "toStringJS pf (JObject props) = ''[object Object]''"
| "toStringJS pf (JArray xs props) =
     (if ''join'' \<in> fst ` set props then ''[object Array]''
      else join '','' (map (\<lambda>x. if x = JNull then [] else toStringJS pf x) xs))"

text \<open>
  The user prompt is built before the \<open>try\<close>. Its template converts
  \<open>packageDescription\<close> when it is truthy, so a description that does not convert makes
  \<open>generateWelcomePage\<close> throw.
\<close>

definition promptThrows :: "welcome_env \<Rightarrow> bool" where
  "promptThrows env = convOrThrows (Some (packageDescription env))"

datatype welcome_error =
  ServiceFailed string | NoStepsGenerated | PropertyOfNull | CannotConvert | AssignToPrimitive

text \<open>
  The body of the \<open>try\<close>, once the call has settled. Reading \<open>steps[0].title\<close> of
  \<open>null\<close> throws; the two \<open>console.log\<close> calls convert \<open>steps[0].title\<close> and
  \<open>steps[0].file || welcomeFile\<close> to strings, which can throw; and the assignment of
  \<open>file\<close> to a primitive first element throws.
\<close>

definition generateWelcomePage_try ::
  "json_parser \<Rightarrow> ProjectStructure \<Rightarrow> welcome_env \<Rightarrow> llm_outcome \<Rightarrow> welcome_error + jsvalue list" where
  "generateWelcomePage_try parse struct env outcome =
     (case outcome of
        Rejects message \<Rightarrow> Inl (ServiceFailed message)
      | Resolves content \<Rightarrow>
          (case parseStepsFromResponse parse content of
             [] \<Rightarrow> Inl NoStepsGenerated
           | first # rest \<Rightarrow>
               if first = JNull then Inl PropertyOfNull
               else if convThrows (getProp first ''title'') then Inl CannotConvert
               else if convOrThrows (getProp first ''file'') then Inl CannotConvert
               else if \<not> truthy (getProp first ''file'') \<or> getProp first ''file'' = Some (JStr ''README.md'')
               then (case setProp first ''file'' (JStr (welcomeFile struct env)) of
                       None \<Rightarrow> Inl AssignToPrimitive
                     | Some first' \<Rightarrow> Inr (slice 0 1 (first' # rest)))
               else Inr (slice 0 1 (first # rest))))"

subsubsection \<open>The fallback step\<close>

definition nl :: string where
  "nl = [CHR 0x0A]"

definition emoji_party :: string where
  "emoji_party = [CHR 0xF0, CHR 0x9F, CHR 0x8E, CHR 0x89]"

definition emoji_target :: string where
  "emoji_target = [CHR 0xF0, CHR 0x9F, CHR 0x8E, CHR 0xAF]"

definition emoji_chart :: string where
  "emoji_chart = [CHR 0xF0, CHR 0x9F, CHR 0x93, CHR 0x8A]"

definition emoji_books :: string where
  "emoji_books = [CHR 0xF0, CHR 0x9F, CHR 0x93, CHR 0x9A]"

definition emoji_folder :: string where
  "emoji_folder = [CHR 0xF0, CHR 0x9F, CHR 0x93, CHR 0x82]"

text \<open>\<open>[...new Set(xs)]\<close>: the distinct elements in order of first occurrence.\<close>

definition uniqueInOrder :: "'a list \<Rightarrow> 'a list" where
  "uniqueInOrder xs = rev (remdups (rev xs))"

definition getKeyDirectories :: "FileAnalysis list \<Rightarrow> string list" where
  "getKeyDirectories fs =
     slice 0 6 (uniqueInOrder
       (concat (map (\<lambda>f. let parts = split CHR ''/'' (fa_file f)
                          in if length parts > 1 then [hd parts] else []) fs)))"

definition languagesLine :: "ProjectStructure \<Rightarrow> string" where
  "languagesLine struct = join '', '' (uniqueInOrder (map language (files struct)))"

definition entryPointsLine :: "ProjectStructure \<Rightarrow> string" where
  "entryPointsLine struct =
     (let s = join '', '' (slice 0 3 (entryPoints struct)) in if s = [] then ''Not detected'' else s)"

definition purposeSection :: "platform \<Rightarrow> welcome_env \<Rightarrow> string" where
  "purposeSection pf env =
     (if truthy (Some (packageDescription env))
      then ''## '' @ emoji_target @ '' Purpose'' @ nl @ toStringJS pf (packageDescription env) @ nl @ nl
      else [])"

text \<open>
  The description of the fallback step. It is built in the \<open>catch\<close>, so after the
  prompt: the conversion of \<open>packageDescription\<close> has not thrown there and does not
  throw here.
\<close>

definition fallbackDescription :: "platform \<Rightarrow> ProjectStructure \<Rightarrow> welcome_env \<Rightarrow> string" where
  "fallbackDescription pf struct env =
     (case (case readmeContent env of None \<Rightarrow> [] | Some text \<Rightarrow> text) of readmeText \<Rightarrow>
      if readmeText \<noteq> [] \<and> strLength pf readmeText > 100 then
        ''# Welcome to '' @ welcomeName env @ nl @ nl
        @ purposeSection pf env
        @ join nl (slice 0 40 (split CHR 0x0A readmeText)) @ nl @ nl
        @ ''## '' @ emoji_chart @ '' Codebase Overview'' @ nl
        @ ''- **Files**: '' @ numberToString pf (int (length (files struct))) @ '' analyzed'' @ nl
        @ ''- **Languages**: '' @ languagesLine struct @ nl
        @ ''- **Entry Points**: '' @ entryPointsLine struct @ nl @ nl
        @ ''## '' @ emoji_books @ '' Tour Coverage'' @ nl
        @ ''This tour explores the key components, architecture, and implementation details of this codebase.'' @ nl
      else
        ''# Welcome to '' @ welcomeName env @ nl @ nl
        @ purposeSection pf env
        @ ''## '' @ emoji_chart @ '' Project Overview'' @ nl
        @ ''- **Files Analyzed**: '' @ numberToString pf (int (length (files struct))) @ nl
        @ ''- **Languages**: '' @ languagesLine struct @ nl
        @ ''- **Entry Points**: '' @ entryPointsLine struct @ nl @ nl
        @ ''## '' @ emoji_folder @ '' Key Directories'' @ nl
        @ join nl (map (\<lambda>d. ''- '' @ [CHR 0x60] @ d @ ''/'' @ [CHR 0x60] @ '' - Main source directory'')
                     (getKeyDirectories (files struct)))
        @ nl @ nl @ ''## '' @ emoji_target @ '' What You'' @ [CHR 0x27] @ ''ll Learn'' @ nl
        @ ''This tour will walk you through the codebase structure, key components, and how different parts work together.'' @ nl)"

definition fallbackStep :: "platform \<Rightarrow> ProjectStructure \<Rightarrow> welcome_env \<Rightarrow> jsvalue" where
  "fallbackStep pf struct env =
     JObject [(''title'', JStr (emoji_party @ '' Welcome to '' @ welcomeName env)),
              (''file'', JStr (welcomeFile struct env)),
              (''line'', JNum 1),
              (''description'', JStr (fallbackDescription pf struct env))]"

text \<open>
  What becomes of a call of an asynchronous function: it never returns, it throws (its
  promise rejects), or it returns a value.
\<close>

datatype 'a call_result = NeverReturns | Throws | Returns 'a

text \<open>
  \<open>generateWelcomePage\<close>: the prompt, then the \<open>try\<close>, whose \<open>catch\<close> builds
  the fallback step.
\<close>

definition generateWelcomePage ::
  "platform \<Rightarrow> json_parser \<Rightarrow> ProjectStructure \<Rightarrow> welcome_env \<Rightarrow> jsvalue list call_result" where
  "generateWelcomePage pf parse struct env =
     (if promptThrows env then Throws
      else case welcomeService env of
             NeverSettles \<Rightarrow> NeverReturns
           | Settles outcome \<Rightarrow>
               Returns (case generateWelcomePage_try parse struct env outcome of
                          Inl err \<Rightarrow> [fallbackStep pf struct env]
                        | Inr steps \<Rightarrow> steps))"

subsection \<open>generateTourInBatches\<close>

text \<open>
  The loop over the batch groups. Batch number \<open>groupStart + idx + 1\<close> meets the event
  \<open>events (groupStart + idx + 1)\<close>; \<open>Promise.all\<close> gives the results of a group in
  the order of its batches, and they are appended in that order.
\<close>

function groupsFrom ::
  "json_parser \<Rightarrow> (nat \<Rightarrow> batch_event) \<Rightarrow> nat \<Rightarrow> FileAnalysis list list \<Rightarrow> jsvalue list \<Rightarrow> jsvalue list" where
  "groupsFrom parse events groupStart batches allSteps =
     (if groupStart < length batches then
        (let batchGroup = slice groupStart (groupStart + CONCURRENT_BATCHES) batches;
             groupResults = map (\<lambda>(idx, batch). runBatch parse (events (groupStart + idx + 1)))
                                (enumerate 0 batchGroup)
         in groupsFrom parse events (groupStart + CONCURRENT_BATCHES) batches
              (allSteps @ concat groupResults))
      else allSteps)"
  by pat_completeness auto
termination
  by (relation "measure (\<lambda>(parse, events, groupStart, batches, allSteps). length batches - groupStart)")
     (auto simp: CONCURRENT_BATCHES_def)

declare groupsFrom.simps [simp del]

text \<open>
  After the welcome page, three lines of the console show \<open>welcomeSteps[0]?.title\<close>,
  \<open>?.file\<close> and \<open>?.line\<close>, each with a default behind \<open>||\<close>; they are written
  outside every \<open>try\<close>.
\<close>

definition welcomeLogThrows :: "jsvalue list \<Rightarrow> bool" where
  "welcomeLogThrows welcomeSteps =
     (case welcomeSteps of
        [] \<Rightarrow> False
      | first # rest \<Rightarrow>
          convOrThrows (getProp first ''title'') \<or> convOrThrows (getProp first ''file'')
          \<or> convOrThrows (getProp first ''line''))"

definition generateTourInBatches ::
  "platform \<Rightarrow> json_parser \<Rightarrow> ProjectStructure \<Rightarrow> welcome_env \<Rightarrow> (nat \<Rightarrow> batch_event)
     \<Rightarrow> jsvalue list call_result" where
  "generateTourInBatches pf parse struct env events =
     (let importantFiles = filterImportantFiles pf (files struct)
      in case generateWelcomePage pf parse struct env of
           NeverReturns \<Rightarrow> NeverReturns
         | Throws \<Rightarrow> Throws
         | Returns welcomeSteps \<Rightarrow>
             if welcomeLogThrows welcomeSteps then Throws
             else
               (let allSteps = (if length welcomeSteps = 0 then [] else welcomeSteps);
                    batches = createFileBatches pf importantFiles
                in Returns (groupsFrom parse events 0 batches allSteps)))"


subsection \<open>A small run of the generator\<close>

definition ex_parse :: json_parser where
  "ex_parse s =
     (if s = ''[2, 3]'' then Some (JArray [JNum 2, JNum 3] [])
      else if s = ''[{}]'' then Some (JArray [JObject []] [])
      else if s = ''[null]'' then Some (JArray [JNull] [])
      else None)"

definition ex_source :: "string \<Rightarrow> FileAnalysis" where
  "ex_source p = \<lparr>fa_file = p, language = ''typescript'',
     elements = [CodeElement Function ''run'' p 1 3 []], fa_imports = [], fa_exports = []\<rparr>"

definition ex_project :: ProjectStructure where
  "ex_project = \<lparr>rootPath = ''/repo'',
     files = [ex_source ''src/a.ts'', ex_source ''src/b.ts'', ex_source ''src/c.ts'',
              ex_source ''src/d.ts'', ex_source ''src/e.ts''],
     entryPoints = [], dependencies = []\<rparr>"

definition ex_env :: welcome_env where
  "ex_env = \<lparr>workspaceName = Some ''demo'', readmeContent = None, packageDescription = JStr [],
     welcomeService = Settles (Rejects ''Rate limit exceeded'')\<rparr>"



definition ex_events :: "nat \<Rightarrow> batch_event" where
  "ex_events k = RequestSettlesFirst (Resolves (Some ''Here you are: [2, 3] Enjoy''))"

section \<open>The structural analyzer: treesitter-analyzer.ts\<close>

subsection \<open>Syntax trees of the parser library\<close>

text \<open>
  A node of the syntax tree that web-tree-sitter returns: its type, the rows of its start
  and end positions (0-based), its source text (\<open>content.substring(startIndex, endIndex)\<close>),
  the children that carry the field names \<open>name\<close> and \<open>value\<close> (as positions among
  the children), and the children.
\<close>

datatype syntax_node =
  Node (ntype: string) (startRow: nat) (endRow: nat) (ntext: string)
    (nameField: "nat option") (valueField: "nat option") (nchildren: "syntax_node list")

text \<open>\<open>node.childForFieldName(f)\<close>: \<open>None\<close> is \<open>null\<close>.\<close>

definition childForField :: "nat option \<Rightarrow> syntax_node \<Rightarrow> syntax_node option" where
  "childForField fld node =
     (case fld of
        None \<Rightarrow> None
      | Some i \<Rightarrow> if i < length (nchildren node) then Some (nchildren node ! i) else None)"

definition hasAsyncChild :: "syntax_node \<Rightarrow> bool" where
  "hasAsyncChild node = (\<exists>child \<in> set (nchildren node). ntype child = ''async'')"

subsection \<open>nodeToElement\<close>

definition typeMap :: "string \<Rightarrow> element_type option" where
  "typeMap = map_of
     [(''class_declaration'', Class),
      (''class_definition'', Class),
      (''function_declaration'', Function),
      (''function_definition'', Function),
      (''method_definition'', Method),
      (''method_declaration'', Method),
      (''interface_declaration'', Interface),
      (''enum_declaration'', Enum),
      (''type_alias_declaration'', Interface)]"

text \<open>
  The loop over the children of a \<open>lexical_declaration\<close> or \<open>variable_declaration\<close>:
  the first \<open>variable_declarator\<close> with a name and a value decides.
\<close>

fun declaratorElement :: "string \<Rightarrow> syntax_node \<Rightarrow> syntax_node list \<Rightarrow> CodeElement option" where
  "declaratorElement filePath node [] = None"
| "declaratorElement filePath node (child # rest) =
     (if ntype child = ''variable_declarator'' then
        (case childForField (nameField child) child of
           None \<Rightarrow> declaratorElement filePath node rest
         | Some nameNode \<Rightarrow>
             (case childForField (valueField child) child of
                None \<Rightarrow> declaratorElement filePath node rest
              | Some valueNode \<Rightarrow>
                  if ntype valueNode = ''arrow_function'' \<or> ntype valueNode = ''function''
                     \<or> ntype valueNode = ''function_expression''
                  then Some (CodeElement (if hasAsyncChild valueNode then AsyncFunction else Function)
                               (ntext nameNode) filePath (startRow node + 1) (endRow node + 1) [])
                  else Some (CodeElement Variable (ntext nameNode) filePath
                               (startRow node + 1) (endRow node + 1) [])))
      else declaratorElement filePath node rest)"

definition isExportedDeclaration :: "syntax_node \<Rightarrow> bool" where
  "isExportedDeclaration child =
     (ntype child = ''lexical_declaration'' \<or> ntype child = ''variable_declaration''
      \<or> ntype child = ''function_declaration'' \<or> ntype child = ''class_declaration'')"

function nodeToElement :: "string \<Rightarrow> syntax_node \<Rightarrow> CodeElement option" where
  "nodeToElement filePath node =
     (case typeMap (ntype node) of
        Some elementType \<Rightarrow>
          Some (CodeElement
                 (if hasAsyncChild node \<and> elementType = Function then AsyncFunction else elementType)
                 (case childForField (nameField node) node of
                    None \<Rightarrow> ''anonymous''
                  | Some nameNode \<Rightarrow> ntext nameNode)
                 filePath (startRow node + 1) (endRow node + 1) [])
      | None \<Rightarrow>
          (case (if ntype node = ''lexical_declaration'' \<or> ntype node = ''variable_declaration''
                 then declaratorElement filePath node (nchildren node) else None) of
             Some element \<Rightarrow> Some element
           | None \<Rightarrow>
               if ntype node = ''export_statement'' then
                 (case find isExportedDeclaration (nchildren node) of
                    None \<Rightarrow> None
                  | Some child \<Rightarrow> nodeToElement filePath child)
               else None))"
  by pat_completeness auto
termination
proof (relation "measure (\<lambda>(filePath, node). size node)")
  show "wf (measure (\<lambda>(filePath, node). size node))"
    by simp
next
  fix filePath :: string and node child :: syntax_node
  have smaller: "find P cs = Some c \<Longrightarrow> size c < Suc (size_list size cs)"
    for P and cs :: "syntax_node list" and c
    by (induction cs) (auto split: if_splits)
  assume "find isExportedDeclaration (nchildren node) = Some child"
  then have "size child < Suc (size_list size (nchildren node))"
    by (rule smaller)
  then show "((filePath, child), (filePath, node)) \<in> measure (\<lambda>(filePath, node). size node)"
    by (cases node) simp
qed

declare nodeToElement.simps [simp del]

subsection \<open>extractElements\<close>

text \<open>\<open>node.parent?.type\<close> is passed along as \<open>parentType\<close> (\<open>None\<close> at the root).\<close>

definition isMethodNode :: "syntax_node \<Rightarrow> string option \<Rightarrow> bool" where
  "isMethodNode node parentType =
     (ntype node = ''method_definition'' \<or> ntype node = ''function_definition''
      \<or> (parentType = Some ''class_body''
          \<and> (ntype node = ''function_declaration'' \<or> ntype node = ''method_declaration'')))"

text \<open>
  The traversal pushes each element either onto the array \<open>elements\<close> or onto the
  \<open>children\<close> of the element \<open>parent\<close>, an object that is reachable from
  \<open>elements\<close>. The model keeps the one tree of elements and addresses an element by its
  path from the top: \<open>[]\<close> is the top-level array, \<open>p @ [i]\<close> the \<open>i\<close>-th element
  of the array addressed by \<open>p\<close>.
\<close>

fun setChildren :: "CodeElement \<Rightarrow> CodeElement list \<Rightarrow> CodeElement" where
  "setChildren (CodeElement t n f l e cs) cs' = CodeElement t n f l e cs'"

fun pushAt :: "nat list \<Rightarrow> CodeElement \<Rightarrow> CodeElement list \<Rightarrow> CodeElement list" where
  "pushAt [] element els = els @ [element]"
| "pushAt (i # path) element els =
     (if i < length els
      then els[i := setChildren (els ! i) (pushAt path element (children (els ! i)))]
      else els)"

fun lengthAt :: "nat list \<Rightarrow> CodeElement list \<Rightarrow> nat" where
  "lengthAt [] els = length els"
| "lengthAt (i # path) els = (if i < length els then lengthAt path (children (els ! i)) else 0)"

function traverse ::
  "string \<Rightarrow> syntax_node \<Rightarrow> string option \<Rightarrow> nat list option \<Rightarrow> CodeElement list \<Rightarrow> CodeElement list" where
  "traverse filePath node parentType parent els =
     (case nodeToElement filePath node of
        None \<Rightarrow>
          fold (\<lambda>child. traverse filePath child (Some (ntype node)) parent) (nchildren node) els
      | Some element \<Rightarrow>
          (let target = (case parent of
                           None \<Rightarrow> []
                         | Some p \<Rightarrow> if isMethodNode node parentType then p else []);
               self = target @ [lengthAt target els];
               els' = pushAt target element els
           in if etype element = Class
              then fold (\<lambda>child. traverse filePath child (Some (ntype node)) (Some self))
                     (nchildren node) els'
              else fold (\<lambda>child. traverse filePath child (Some (ntype node)) parent)
                     (nchildren node) els'))"
  by pat_completeness auto
termination
  apply (relation "measure (\<lambda>(filePath, node, parentType, parent, els). size node)")
     apply simp
    apply (case_tac node; simp add: less_Suc_eq_le size_list_estimation')
   apply (case_tac node; simp add: less_Suc_eq_le size_list_estimation')
  apply (case_tac node; simp add: less_Suc_eq_le size_list_estimation')
  done

declare traverse.simps [simp del]

definition extractElements :: "syntax_node \<Rightarrow> string \<Rightarrow> CodeElement list" where
  "extractElements root filePath = traverse filePath root None None []"

subsection \<open>Imports and exports of the tree\<close>

fun collectStatements :: "platform \<Rightarrow> string \<Rightarrow> syntax_node \<Rightarrow> string list" where
  "collectStatements pf key (Node t r0 r1 txt nf vf cs) =
     (if str_includes t key then [trim pf txt] else []) @ concat (map (collectStatements pf key) cs)"

definition extractImports :: "platform \<Rightarrow> syntax_node \<Rightarrow> string list" where
  "extractImports pf root = collectStatements pf ''import'' root"

definition extractExports :: "platform \<Rightarrow> syntax_node \<Rightarrow> string list" where
  "extractExports pf root = collectStatements pf ''export'' root"


subsection \<open>analyzeFileRegex\<close>

text \<open>
  The two patterns of the fallback are matched by the regular-expression engine of the
  platform. The model takes the two matches as parameters: \<open>classMatch trimmed\<close> is
  \<open>classMatch[1]\<close> of
  \<^verbatim>\<open>trimmed.match(/^(?:export\s+)?(?:abstract\s+)?class\s+(\w+)/)\<close>
  and \<open>methodMatch trimmed\<close> is \<open>methodMatch[1]\<close> of
  \<^verbatim>\<open>trimmed.match(/^(?:public|private|protected|async|static)*\s*(\w+)\s*\([^)]*\)\s*[:=>{]/)\<close>;
  \<open>None\<close> is no match.
\<close>

record line_patterns =
  classMatch :: "string \<Rightarrow> string option"
  methodMatch :: "string \<Rightarrow> string option"

text \<open>
  The variables of the callback of \<open>lines.forEach\<close>. \<open>currentClass\<close> refers to an
  element of \<open>elements\<close>: it is kept as the index of that element.
\<close>

record regex_state =
  els :: "CodeElement list"
  imps :: "string list"
  exps :: "string list"
  currentClass :: "nat option"
  currentIndent :: int

definition pushChild :: "nat \<Rightarrow> CodeElement \<Rightarrow> CodeElement list \<Rightarrow> CodeElement list" where
  "pushChild i element es =
     (if i < length es then es[i := setChildren (es ! i) (children (es ! i) @ [element])] else es)"

definition regexClass :: "line_patterns \<Rightarrow> string \<Rightarrow> string \<Rightarrow> int \<Rightarrow> nat \<Rightarrow> regex_state \<Rightarrow> regex_state" where
  "regexClass pats filePath trimmed indent index st =
     (case classMatch pats trimmed of
        None \<Rightarrow> st
      | Some className \<Rightarrow>
          st\<lparr>currentClass := Some (length (els st)),
             currentIndent := indent,
             els := els st @ [CodeElement Class className filePath (index + 1) (index + 1) []]\<rparr>)"

definition regexMethod :: "line_patterns \<Rightarrow> string \<Rightarrow> string \<Rightarrow> int \<Rightarrow> nat \<Rightarrow> regex_state \<Rightarrow> regex_state" where
  "regexMethod pats filePath trimmed indent index st =
     (case methodMatch pats trimmed of
        None \<Rightarrow> st
      | Some methodName \<Rightarrow>
          if \<not> startsWith trimmed ''//'' \<and> \<not> startsWith trimmed ''*'' then
            (let method = CodeElement (if str_includes trimmed ''async'' then AsyncFunction else Function)
                            methodName filePath (index + 1) (index + 1) []
             in case currentClass st of
                  Some c \<Rightarrow>
                    if indent > currentIndent st then st\<lparr>els := pushChild c method (els st)\<rparr>
                    else st\<lparr>els := els st @ [method], currentClass := None\<rparr>
                | None \<Rightarrow> st\<lparr>els := els st @ [method], currentClass := None\<rparr>)
          else st)"

definition regexLine :: "platform \<Rightarrow> line_patterns \<Rightarrow> string \<Rightarrow> string \<Rightarrow> string \<Rightarrow> nat \<Rightarrow> regex_state \<Rightarrow> regex_state" where
  "regexLine pf pats filePath languageId ln index st =
     (let trimmed = trim pf ln;
          indent = searchNonSpace pf ln;
          st1 = (if languageId = ''typescript'' \<or> languageId = ''javascript''
                 then regexMethod pats filePath trimmed indent index
                        (regexClass pats filePath trimmed indent index st)
                 else st);
          st2 = (if str_includes trimmed ''import '' \<or> str_includes trimmed ''from ''
                 then st1\<lparr>imps := imps st1 @ [trimmed]\<rparr> else st1);
          st3 = (if startsWith trimmed ''export '' then st2\<lparr>exps := exps st2 @ [trimmed]\<rparr> else st2)
      in st3)"

fun regexLines :: "platform \<Rightarrow> line_patterns \<Rightarrow> string \<Rightarrow> string \<Rightarrow> nat \<Rightarrow> string list \<Rightarrow> regex_state \<Rightarrow> regex_state" where
  "regexLines pf pats filePath languageId index [] st = st"
| "regexLines pf pats filePath languageId index (ln # rest) st =
     regexLines pf pats filePath languageId (Suc index) rest (regexLine pf pats filePath languageId ln index st)"

definition analyzeFileRegex :: "platform \<Rightarrow> line_patterns \<Rightarrow> string \<Rightarrow> string \<Rightarrow> string \<Rightarrow> FileAnalysis" where
  "analyzeFileRegex pf pats filePath content languageId =
     (let st = regexLines pf pats filePath languageId 0 (split CHR 0x0A content)
                 \<lparr>els = [], imps = [], exps = [], currentClass = None, currentIndent = 0\<rparr>
      in \<lparr>fa_file = filePath, language = languageId, elements = els st,
          fa_imports = imps st, fa_exports = exps st\<rparr>)"

subsection \<open>analyzeFile\<close>

text \<open>
  The analyzer after \<open>initialize\<close>: whether \<open>this.parser\<close> is set, and the grammars of
  \<open>this.languages\<close>. A grammar is given by what \<open>parser.parse\<close> returns with it for a
  content: the root of the tree, or \<open>None\<close> when parsing throws.
\<close>

type_synonym grammar = "string \<Rightarrow> syntax_node option"

record analyzer =
  parserLoaded :: bool
  languages :: "string \<Rightarrow> grammar option"
  patterns :: line_patterns

definition langMap :: "string \<Rightarrow> string option" where
  "langMap = map_of
     [(''typescript'', ''typescript''),
      (''typescriptreact'', ''tsx''),
      (''javascript'', ''javascript''),
      (''javascriptreact'', ''jsx''),
      (''python'', ''python'')]"

definition getLanguage :: "analyzer \<Rightarrow> string \<Rightarrow> grammar option" where
  "getLanguage a languageId =
     (case langMap languageId of
        None \<Rightarrow> None
      | Some mappedLang \<Rightarrow> if mappedLang \<noteq> [] then languages a mappedLang else None)"

text \<open>
  The grammar path of \<open>analyzeFile\<close>, and the function itself: every way out of the
  grammar path that does not return ends in \<open>analyzeFileRegex\<close>. The declared result type
  is \<open>FileAnalysis | null\<close>.
\<close>

definition analyzeFileTreeSitter :: "platform \<Rightarrow> analyzer \<Rightarrow> string \<Rightarrow> string \<Rightarrow> string \<Rightarrow> FileAnalysis option" where
  "analyzeFileTreeSitter pf a filePath content languageId =
     (if parserLoaded a then
        (case getLanguage a languageId of
           None \<Rightarrow> None
         | Some lang \<Rightarrow>
             (case lang content of
                None \<Rightarrow> None
              | Some rootNode \<Rightarrow>
                  Some \<lparr>fa_file = filePath, language = languageId,
                        elements = extractElements rootNode filePath,
                        fa_imports = extractImports pf rootNode,
                        fa_exports = extractExports pf rootNode\<rparr>))
      else None)"

definition analyzeFile :: "platform \<Rightarrow> analyzer \<Rightarrow> string \<Rightarrow> string \<Rightarrow> string \<Rightarrow> FileAnalysis option" where
  "analyzeFile pf a filePath content languageId =
     (case analyzeFileTreeSitter pf a filePath content languageId of
        Some analysis \<Rightarrow> Some analysis
      | None \<Rightarrow> Some (analyzeFileRegex pf (patterns a) filePath content languageId))"

subsection \<open>Shapes of elements\<close>

text \<open>
  An element of the fallback: its line is one of the \<open>n\<close> lines of the file, counted
  from 1, and it ends on the line it starts on; its children are such elements, without
  children of their own.
\<close>

definition oneLine :: "nat \<Rightarrow> CodeElement \<Rightarrow> bool" where
  "oneLine n e = (1 \<le> eline e \<and> eline e \<le> n \<and> endLine e = eline e)"

definition fallbackShaped :: "nat \<Rightarrow> CodeElement \<Rightarrow> bool" where
  "fallbackShaped n e = (oneLine n e \<and> (\<forall>c \<in> set (children e). oneLine n c \<and> children c = []))"


subsection \<open>A small file for the fallback\<close>

text \<open>Two simple matchers stand in for the two regular expressions.\<close>

definition ex_patterns :: line_patterns where
  "ex_patterns =
     \<lparr>classMatch = (\<lambda>s. if startsWith s ''class '' then Some (takeWhile (\<lambda>c. c \<noteq> CHR '' '') (drop 6 s)) else None),
      methodMatch = (\<lambda>s. if str_includes s ''('' \<and> \<not> startsWith s ''class ''
                          then Some (takeWhile (\<lambda>c. c \<noteq> CHR ''('') s) else None)\<rparr>"

definition ex_content :: string where
  "ex_content = ''class Foo {'' @ [CHR 0x0A] @ ''  bar() {'' @ [CHR 0x0A] @ ''  }'' @ [CHR 0x0A] @ ''}''"

definition ex_analyzer :: analyzer where
  "ex_analyzer = \<lparr>parserLoaded = False, languages = (\<lambda>l. None), patterns = ex_patterns\<rparr>"

subsection \<open>Trees of elements and trees of nodes\<close>

text \<open>
  Every element of a tree of elements, each without its children, in preorder; and the
  inclusive line span of every element of a tree.
\<close>

fun flat :: "CodeElement \<Rightarrow> CodeElement list" where
  "flat (CodeElement t n f l e cs) = CodeElement t n f l e [] # concat (map flat cs)"

definition flatAll :: "CodeElement list \<Rightarrow> CodeElement list" where
  "flatAll es = concat (map flat es)"









subsection \<open>The scenario of the specification: class Foo with methods bar and baz\<close>





section \<open>Discovery and prioritisation: analyzeProject\<close>

text \<open>
  The workspace of the editor, as \<open>analyzeProject\<close> meets it: the files it enumerates
  (workspace-relative paths, in its order), its glob matcher (pattern, path), and
  \<open>openTextDocument\<close>, which gives the text and the language id of a file or throws
  (\<open>None\<close>). A file is identified by its relative path, as \<open>asRelativePath\<close> gives it.
\<close>

record workspace =
  listing :: "string list"
  glob :: "string \<Rightarrow> string \<Rightarrow> bool"
  openTextDocument :: "string \<Rightarrow> (string \<times> string) option"

text \<open>
  \<open>vscode.workspace.findFiles(include, exclude, maxResults)\<close>: the files that match the
  include pattern and not the exclude pattern, at most \<open>maxResults\<close> of them when a
  maximum is given.
\<close>

definition findFiles :: "workspace \<Rightarrow> string \<Rightarrow> string \<Rightarrow> nat option \<Rightarrow> string list" where
  "findFiles ws include exclude maxResults =
     (let found = filter (\<lambda>p. glob ws include p \<and> \<not> glob ws exclude p) (listing ws)
      in case maxResults of None \<Rightarrow> found | Some n \<Rightarrow> take n found)"

text \<open>
  The two settings read from the configuration; \<open>maxFilesToAnalyze\<close> is a number of
  files.
\<close>

record settings =
  maxFilesToAnalyze :: nat
  includeFileTypes :: "string list"

definition includePattern :: "settings \<Rightarrow> string" where
  "includePattern s = ''**/*{'' @ join '','' (includeFileTypes s) @ ''}''"

definition excludePatterns :: "string list" where
  "excludePatterns =
     [''**/node_modules/**'', ''**/dist/**'', ''**/build/**'', ''**/out/**'', ''**/.next/**'',
      ''**/coverage/**'', ''**/__tests__/**'', ''**/__mocks__/**'', ''**/*.test.*'',
      ''**/*.spec.*'', ''**/*.min.*'', ''**/*.d.ts'', ''**/.git/**'', ''**/.vscode/**'',
      ''**/.idea/**'']"

definition excludePattern :: string where
  "excludePattern = ''{'' @ join '','' excludePatterns @ ''}''"

definition searchLimit :: "settings \<Rightarrow> nat option" where
  "searchLimit s = (if maxFilesToAnalyze s = 0 then None else Some (maxFilesToAnalyze s * 3))"

definition foundFiles :: "workspace \<Rightarrow> settings \<Rightarrow> string list" where
  "foundFiles ws s = findFiles ws (includePattern s) excludePattern (searchLimit s)"

text \<open>The second filter: what it removes.\<close>

definition slippedThrough :: "platform \<Rightarrow> string \<Rightarrow> bool" where
  "slippedThrough pf path =
     (let relativePath = toLowerCase pf path in
      str_includes relativePath ''.test.'' \<or> str_includes relativePath ''.spec.''
      \<or> str_includes relativePath ''test/'' \<or> str_includes relativePath ''tests/''
      \<or> str_includes relativePath ''__test__'' \<or> str_includes relativePath ''.config.''
      \<or> str_includes relativePath ''config/'' \<or> str_includes relativePath ''.generated.''
      \<or> str_includes relativePath ''.min.'')"

definition cleanedFiles :: "platform \<Rightarrow> workspace \<Rightarrow> settings \<Rightarrow> string list" where
  "cleanedFiles pf ws s = filter (\<lambda>uri. \<not> slippedThrough pf uri) (foundFiles ws s)"

definition fileScore :: "platform \<Rightarrow> string \<Rightarrow> int" where
  "fileScore pf path =
     (let relativePath = toLowerCase pf path;
          s1 = (if str_includes relativePath ''index'' \<or> str_includes relativePath ''main''
                   \<or> str_includes relativePath ''app'' then 100 else 0);
          s2 = s1 + (if str_includes relativePath ''src/'' \<or> str_includes relativePath ''lib/'' then 50 else 0);
          s3 = s2 - (if str_includes relativePath ''test'' \<or> str_includes relativePath ''spec'' then 50 else 0);
          depth = length (split CHR ''/'' relativePath);
          s4 = s3 - int depth * 2;
          s5 = s4 - (if str_includes relativePath ''config'' \<or> str_includes relativePath ''webpack'' then 30 else 0);
          s6 = s5 + (if str_includes relativePath ''type'' \<or> str_includes relativePath ''interface'' then 10 else 0)
      in s6)"

text \<open>\<open>scored.sort((a, b) => b.score - a.score)\<close>: descending score, stable.\<close>

definition prioritizeFiles :: "platform \<Rightarrow> string list \<Rightarrow> string list" where
  "prioritizeFiles pf fs = sort_key (\<lambda>uri. - fileScore pf uri) fs"

definition filesToAnalyze :: "platform \<Rightarrow> workspace \<Rightarrow> settings \<Rightarrow> string list" where
  "filesToAnalyze pf ws s =
     (let prioritizedFiles = prioritizeFiles pf (cleanedFiles pf ws s)
      in if maxFilesToAnalyze s = 0 then prioritizedFiles
         else slice 0 (maxFilesToAnalyze s) prioritizedFiles)"

text \<open>
  The loop over the files to analyse: a file whose document cannot be opened is logged and
  skipped.
\<close>

definition analyzeOne ::
  "platform \<Rightarrow> analyzer \<Rightarrow> workspace \<Rightarrow> string \<Rightarrow> FileAnalysis list \<times> string list \<Rightarrow> FileAnalysis list \<times> string list" where
  "analyzeOne pf a ws fileUri st =
     (case openTextDocument ws fileUri of
        None \<Rightarrow> st
      | Some (content, languageId) \<Rightarrow>
          (case analyzeFile pf a fileUri content languageId of
             None \<Rightarrow> st
           | Some analysis \<Rightarrow>
               (fst st @ [analysis],
                (let fileName = toLowerCase pf fileUri in
                 if str_includes fileName ''index'' \<or> str_includes fileName ''main''
                    \<or> str_includes fileName ''app''
                 then snd st @ [fileUri] else snd st))))"

text \<open>
  \<open>buildDependencyGraph\<close>: for each file, the module names of its import statements.
  \<open>fromMatch\<close> is \<open>match[1]\<close> of
  \<^verbatim>\<open>importStmt.match(/from\s+['"](.+?)['"]/)\<close>, a parameter like the other patterns.
\<close>

fun setEntry :: "'k \<Rightarrow> 'v \<Rightarrow> ('k \<times> 'v) list \<Rightarrow> ('k \<times> 'v) list" where
  "setEntry k v [] = [(k, v)]"
| "setEntry k v (p # ps) = (if fst p = k then (k, v) # ps else p # setEntry k v ps)"

definition buildDependencyGraph ::
  "(string \<Rightarrow> string option) \<Rightarrow> FileAnalysis list \<Rightarrow> (string \<times> string list) list" where
  "buildDependencyGraph fromMatch fs =
     fold (\<lambda>f graph. setEntry (fa_file f) (List.map_filter fromMatch (fa_imports f)) graph) fs []"

definition analyzeProject ::
  "platform \<Rightarrow> analyzer \<Rightarrow> (string \<Rightarrow> string option) \<Rightarrow> workspace \<Rightarrow> settings \<Rightarrow> string \<Rightarrow> ProjectStructure" where
  "analyzeProject pf a fromMatch ws s workspaceRoot =
     (let st = fold (analyzeOne pf a ws) (filesToAnalyze pf ws s) ([], [])
      in \<lparr>rootPath = workspaceRoot, files = fst st, entryPoints = snd st,
          dependencies = buildDependencyGraph fromMatch (fst st)\<rparr>)"

subsection \<open>A small workspace\<close>

text \<open>
  A matcher that reads the two patterns of \<open>analyzeProject\<close> as the workspace does: the
  exclusion pattern matches a path with one of the listed directories above the file, or
  with a file name of the forms \<open>*.test.*\<close>, \<open>*.spec.*\<close>, \<open>*.min.*\<close>,
  \<open>*.d.ts\<close>; the inclusion pattern of the default file types matches a path that ends
  in one of them.
\<close>

definition ex_glob :: "string \<Rightarrow> string \<Rightarrow> bool" where
  "ex_glob pattern path =
     (let segments = split CHR ''/'' path; fileName = last segments in
      if pattern = excludePattern then
        (\<exists>d \<in> set (butlast segments).
            d \<in> set [''node_modules'', ''dist'', ''build'', ''out'', ''.next'', ''coverage'',
                      ''__tests__'', ''__mocks__'', ''.git'', ''.vscode'', ''.idea''])
        \<or> str_includes fileName ''.test.'' \<or> str_includes fileName ''.spec.''
        \<or> str_includes fileName ''.min.''
        \<or> drop (length fileName - 5) fileName = ''.d.ts''
      else drop (length path - 3) path = ''.ts'' \<or> drop (length path - 3) path = ''.js''
           \<or> drop (length path - 3) path = ''.py'')"

definition ex_workspace :: workspace where
  "ex_workspace =
     \<lparr>listing = [''lib/deep/util.ts'', ''node_modules/x/index.ts'', ''src/index.ts'',
                 ''README.md'', ''src/app.config.ts'', ''src/a.ts''],
      glob = ex_glob,
      openTextDocument = (\<lambda>p. if p = ''src/a.ts'' then None else Some (''class Foo {}'', ''typescript''))\<rparr>"

definition ex_contest_workspace :: workspace where
  "ex_contest_workspace =
     \<lparr>listing = [''src/contest/a.ts'', ''src/core.ts''],
      glob = ex_glob,
      openTextDocument = (\<lambda>p. Some (''class Foo {}'', ''typescript''))\<rparr>"

definition ex_settings :: "nat \<Rightarrow> settings" where
  "ex_settings n = \<lparr>maxFilesToAnalyze = n, includeFileTypes = [''.ts'', ''.js'', ''.py'']\<rparr>"

section \<open>Properties of the validator\<close>

subsection \<open>The loop as a list of surviving iterations\<close>

lemma validateLoop_fst:
  "fst (validateLoop pf fs i ps st) = fst st @ map (\<lambda>(j, s, t). t) (survivors pf fs i ps)"
proof (induction ps arbitrary: i st)
  case Nil
  show ?case by simp
next
  case (Cons step rest)
  show ?case
    by (cases "checkFile pf fs i step"; cases "fst (checkFile pf fs i step)")
       (simp_all add: Cons.IH validateStep_def stepResult_def)
qed

lemma survivors_sound:
  "(j, s, t) \<in> set (survivors pf fs i ps) \<Longrightarrow>
     i \<le> j \<and> j < i + length ps \<and> s = ps ! (j - i) \<and> stepResult pf fs j s = Some t"
proof (induction ps arbitrary: i)
  case Nil
  then show ?case by simp
next
  case (Cons step rest)
  show ?case
  proof (cases "(j, s, t) \<in> set (survivors pf fs (Suc i) rest)")
    case True
    from Cons.IH [OF True] show ?thesis by (auto simp: nth_Cons')
  next
    case False
    with Cons.prems have "j = i \<and> s = step \<and> stepResult pf fs i step = Some t"
      by (auto split: option.splits)
    then show ?thesis by simp
  qed
qed





subsection \<open>Facts about one iteration\<close>

lemma findSimilarFile_loop_find:
  "findSimilarFile_loop pf n fs = find (\<lambda>p. baseNameLower pf p = n) (map fa_file fs)"
  by (induction fs) simp_all

lemma findSimilarFile_sameBasenameMatch:
  "findSimilarFile pf target (files struct) = sameBasenameMatch pf struct target"
  by (simp add: findSimilarFile_def sameBasenameMatch_def findSimilarFile_loop_find)

lemma findSimilarFile_loop_mem:
  "findSimilarFile_loop pf n fs = Some m \<Longrightarrow> m \<in> fa_file ` set fs"
  by (induction fs) (auto split: if_splits)

lemma checkFile_Proceed_cases:
  assumes "fst (checkFile pf fs i s) = Proceed s'"
  shows "(isWelcomeStep i s \<and> s' = s)
       \<or> (\<not> isWelcomeStep i s \<and> s' = s \<and> sfile s \<in> (\<lambda>f. Some (fa_file f)) ` set fs)
       \<or> (\<not> isWelcomeStep i s \<and> sfile s \<notin> (\<lambda>f. Some (fa_file f)) ` set fs
            \<and> (\<exists>target m. sfile s = Some target \<and> findSimilarFile pf target fs = Some m \<and> m \<noteq> []
                  \<and> s' = s\<lparr>sfile := Some m\<rparr>))"
proof (cases "isWelcomeStep i s")
  case True
  with assms show ?thesis by (simp add: checkFile_def)
next
  case nw: False
  show ?thesis
  proof (cases "\<exists>f \<in> set fs. Some (fa_file f) = sfile s")
    case True
    then have "sfile s \<in> (\<lambda>f. Some (fa_file f)) ` set fs" by force
    with assms nw True show ?thesis by (simp add: checkFile_def)
  next
    case False
    then have "sfile s \<notin> (\<lambda>f. Some (fa_file f)) ` set fs" by force
    with assms nw False show ?thesis
      by (simp add: checkFile_def split: option.splits if_splits)
  qed
qed

lemma validateLine_frame:
  "title (validateLine fs s) = title s \<and> sfile (validateLine fs s) = sfile s
   \<and> description (validateLine fs s) = description s \<and> selection (validateLine fs s) = selection s"
  by (simp add: validateLine_def split: option.splits)

lemma toCodeTourStep_frame:
  "title (toCodeTourStep s) = title s \<and> sfile (toCodeTourStep s) = sfile s
   \<and> description (toCodeTourStep s) = description s \<and> selection (toCodeTourStep s) = selection s"
  by (simp add: toCodeTourStep_def)

lemma stepResult_cases:
  assumes "stepResult pf fs i s = Some t"
  obtains s' where "fst (checkFile pf fs i s) = Proceed s'" and "t = toCodeTourStep (validateLine fs s')"
  using assms by (auto simp: stepResult_def split: file_check.splits)

lemma stepResult_frame:
  assumes "stepResult pf fs i s = Some t"
  shows "title t = title s \<and> description t = description s \<and> selection t = selection s"
proof -
  from assms obtain s' where c: "fst (checkFile pf fs i s) = Proceed s'"
    and t: "t = toCodeTourStep (validateLine fs s')"
    by (rule stepResult_cases)
  from checkFile_Proceed_cases [OF c]
  have "title s' = title s \<and> description s' = description s \<and> selection s' = selection s"
    by auto
  with t show ?thesis
    by (simp add: toCodeTourStep_frame validateLine_frame)
qed

lemma stepResult_file_known:
  assumes "stepResult pf fs i s = Some t" and "\<not> isWelcomeStep i s"
  shows "sfile t \<in> (\<lambda>f. Some (fa_file f)) ` set fs"
proof -
  from assms(1) obtain s' where c: "fst (checkFile pf fs i s) = Proceed s'"
    and t: "t = toCodeTourStep (validateLine fs s')"
    by (rule stepResult_cases)
  have "sfile s' \<in> (\<lambda>f. Some (fa_file f)) ` set fs"
    using checkFile_Proceed_cases [OF c] assms(2)
    by (auto simp: findSimilarFile_def dest!: findSimilarFile_loop_mem)
  with t show ?thesis
    by (simp add: toCodeTourStep_frame validateLine_frame)
qed

lemma stepResult_welcome:
  assumes "isWelcomeStep i s"
  shows "stepResult pf fs i s = Some (toCodeTourStep (validateLine fs s))"
  using assms by (simp add: stepResult_def checkFile_def)

lemma find_known_file:
  "f \<in> (\<lambda>f. Some (fa_file f)) ` set fs \<Longrightarrow> find (\<lambda>g. Some (fa_file g) = f) fs \<noteq> None"
  by (auto simp: find_None_iff)

lemma line_of_result:
  "line (toCodeTourStep (validateLine fs s')) =
     (case line s' of
        None \<Rightarrow> None
      | Some l \<Rightarrow>
          if l = 0 then None
          else if l < 1 \<and> find (\<lambda>f. Some (fa_file f) = sfile s') fs \<noteq> None then Some 1
          else Some l)"
  by (auto simp: toCodeTourStep_def validateLine_def split: option.splits)

lemma stepResult_line:
  assumes "stepResult pf fs i s = Some t" and "line s = Some l"
  shows "(l < 1 \<and> l \<noteq> 0 \<and> sfile t \<in> (\<lambda>f. Some (fa_file f)) ` set fs \<longrightarrow> line t = Some 1)
       \<and> (1 \<le> l \<longrightarrow> line t = Some l)
       \<and> (l = 0 \<longrightarrow> line t = None)"
proof -
  from assms(1) obtain s' where c: "fst (checkFile pf fs i s) = Proceed s'"
    and t: "t = toCodeTourStep (validateLine fs s')"
    by (rule stepResult_cases)
  from checkFile_Proceed_cases [OF c] assms(2) have l: "line s' = Some l"
    by auto
  show ?thesis
  proof (cases "sfile s' \<in> (\<lambda>f. Some (fa_file f)) ` set fs")
    case True
    from find_known_file [OF True] show ?thesis
      by (simp add: t line_of_result l)
  next
    case False
    then show ?thesis
      by (simp add: t line_of_result l toCodeTourStep_frame validateLine_frame)
  qed
qed

lemma stepResult_line_cases:
  assumes "stepResult pf fs i s = Some t" and "line s \<noteq> Some 0"
  shows "line t = line s \<or> (line t = Some 1 \<and> (\<exists>l < 1. line s = Some l))"
proof -
  from assms(1) obtain s' where c: "fst (checkFile pf fs i s) = Proceed s'"
    and t: "t = toCodeTourStep (validateLine fs s')"
    by (rule stepResult_cases)
  from checkFile_Proceed_cases [OF c] have l: "line s' = line s"
    by auto
  from assms(2) show ?thesis
    by (cases "line s") (auto simp: t line_of_result l)
qed


subsection \<open>The console of the loop\<close>

lemma validateStep_welcome_log:
  "filter (\<lambda>e. e = WelcomeDetected) (snd (validateStep pf fs i s st)) =
     filter (\<lambda>e. e = WelcomeDetected) (snd st) @ (if isWelcomeStep i s then [WelcomeDetected] else [])"
  by (simp add: validateStep_def checkFile_def Let_def split: option.splits)

lemma validateLoop_welcome_log_later:
  "0 < i \<Longrightarrow>
   filter (\<lambda>e. e = WelcomeDetected) (snd (validateLoop pf fs i ps st)) =
     filter (\<lambda>e. e = WelcomeDetected) (snd st)"
proof (induction ps arbitrary: i st)
  case Nil
  show ?case by simp
next
  case (Cons s rest)
  from Cons.prems have "\<not> isWelcomeStep i s" by (simp add: isWelcomeStep_def)
  then show ?case
    by (simp add: Cons.IH validateStep_welcome_log)
qed

lemma validateLoop_welcome_log:
  "filter (\<lambda>e. e = WelcomeDetected) (snd (validateLoop pf fs 0 ps ([], []))) =
     (case ps of [] \<Rightarrow> [] | s # rest \<Rightarrow> if hasWelcomeMarker s then [WelcomeDetected] else [])"
  by (cases ps)
     (simp_all add: validateLoop_welcome_log_later validateStep_welcome_log isWelcomeStep_def)

lemma validateAndRefineSteps_survivors:
  "validateAndRefineSteps pf steps struct options =
     map (\<lambda>(i, s, t). t) (survivors pf (files struct) 0 (processedSteps steps options))"
  by (simp add: validateAndRefineSteps_def validateAndRefineSteps_run_def validateLoop_fst)

lemma survivors_at:
  assumes "(i, s, t) \<in> set (survivors pf fs 0 ps)"
  shows "i < length ps \<and> s = ps ! i \<and> stepResult pf fs i s = Some t"
  using survivors_sound [OF assms] by auto


subsection \<open>The welcome exemption\<close>

text \<open>
  Claim C1. A step skips the file-existence check exactly when it is at index 0 and its
  title contains \<open>Welcome\<close>. The console shows the skip at most once, and it shows it
  exactly when the first processed step carries the marker. Every emitted step whose file is
  not an analysed file is the step of index 0 with the marker, so every other step, also a
  step of index 0 without the marker, went through the check; and a step of index 0 with the
  marker is always emitted, with its file as it came.
\<close>

theorem C1_welcome_exemption:
  "length (filter (\<lambda>e. e = WelcomeDetected) (snd (validateAndRefineSteps_run pf steps struct options))) \<le> 1
   \<and> (WelcomeDetected \<in> set (snd (validateAndRefineSteps_run pf steps struct options)) \<longleftrightarrow>
        (\<exists>s rest. processedSteps steps options = s # rest \<and> hasWelcomeMarker s))
   \<and> validateAndRefineSteps pf steps struct options =
        map (\<lambda>(i, s, t). t) (survivors pf (files struct) 0 (processedSteps steps options))
   \<and> (\<forall>(i, s, t) \<in> set (survivors pf (files struct) 0 (processedSteps steps options)).
        sfile t \<notin> knownFiles struct \<longrightarrow> i = 0 \<and> hasWelcomeMarker s)
   \<and> (\<forall>s rest. processedSteps steps options = s # rest \<and> hasWelcomeMarker s \<longrightarrow>
        (\<exists>t. (0, s, t) \<in> set (survivors pf (files struct) 0 (processedSteps steps options))
             \<and> sfile t = sfile s))"
proof (intro conjI)
  let ?ps = "processedSteps steps options"
  let ?fs = "files struct"
  let ?log = "snd (validateAndRefineSteps_run pf steps struct options)"
  have log: "filter (\<lambda>e. e = WelcomeDetected) ?log =
      (case ?ps of [] \<Rightarrow> [] | s # rest \<Rightarrow> if hasWelcomeMarker s then [WelcomeDetected] else [])"
    by (simp add: validateAndRefineSteps_run_def validateLoop_welcome_log)
  show "length (filter (\<lambda>e. e = WelcomeDetected) ?log) \<le> 1"
    by (simp add: log split: list.splits)
  have "WelcomeDetected \<in> set ?log \<longleftrightarrow> filter (\<lambda>e. e = WelcomeDetected) ?log \<noteq> []"
    by (simp add: filter_empty_conv)
  also have "\<dots> \<longleftrightarrow> (\<exists>s rest. ?ps = s # rest \<and> hasWelcomeMarker s)"
    by (simp add: log split: list.splits)
  finally show "WelcomeDetected \<in> set ?log \<longleftrightarrow> (\<exists>s rest. ?ps = s # rest \<and> hasWelcomeMarker s)" .
  show "validateAndRefineSteps pf steps struct options = map (\<lambda>(i, s, t). t) (survivors pf ?fs 0 ?ps)"
    by (rule validateAndRefineSteps_survivors)
  show "\<forall>(i, s, t) \<in> set (survivors pf ?fs 0 ?ps). sfile t \<notin> knownFiles struct \<longrightarrow> i = 0 \<and> hasWelcomeMarker s"
  proof (clarify)
    fix i s t
    assume m: "(i, s, t) \<in> set (survivors pf ?fs 0 ?ps)" and n: "sfile t \<notin> knownFiles struct"
    from survivors_at [OF m] have r: "stepResult pf ?fs i s = Some t" by blast
    have "isWelcomeStep i s"
      using stepResult_file_known [OF r] n by (auto simp: knownFiles_def)
    then show "i = 0 \<and> hasWelcomeMarker s" by (simp add: isWelcomeStep_def)
  qed
  show "\<forall>s rest. ?ps = s # rest \<and> hasWelcomeMarker s \<longrightarrow>
        (\<exists>t. (0, s, t) \<in> set (survivors pf ?fs 0 ?ps) \<and> sfile t = sfile s)"
  proof (intro allI impI)
    fix s rest
    assume a: "?ps = s # rest \<and> hasWelcomeMarker s"
    then have w: "isWelcomeStep 0 s" by (simp add: isWelcomeStep_def)
    from a stepResult_welcome [OF w, of pf ?fs]
    have "(0, s, toCodeTourStep (validateLine ?fs s)) \<in> set (survivors pf ?fs 0 ?ps)"
      by simp
    then show "\<exists>t. (0, s, t) \<in> set (survivors pf ?fs 0 ?ps) \<and> sfile t = sfile s"
      by (intro exI [of _ "toCodeTourStep (validateLine ?fs s)"])
         (simp add: toCodeTourStep_frame validateLine_frame)
  qed
qed

subsection \<open>Repair or drop\<close>



subsection \<open>Evaluating the example\<close>

lemma ex_processed: "processedSteps ex_steps ex_options = ex_steps"
  by (simp add: processedSteps_def effectiveMaxSteps_def ex_options_def slice0_def ex_steps_def)

lemma ex_survivors:
  "survivors asciiPlatform (files ex_structure) 0 ex_steps =
     [(0, ex_step ''Welcome to the project'' ''README.md'' 1, ex_step ''Welcome to the project'' ''README.md'' 1),
      (1, ex_step ''Real'' ''lib/real.ts'' (- 4), ex_step ''Real'' ''src/Real.ts'' 1),
      (3, ex_step ''Util'' ''src/util.ts'' 7, ex_step ''Util'' ''src/util.ts'' 7)]"
  by code_simp



theorem C1_welcome_exemption_witness:
  "hasWelcomeMarker (ex_step ''Welcome to the project'' ''README.md'' 1)
   \<and> Some ''README.md'' \<notin> knownFiles ex_structure
   \<and> WelcomeDetected \<in> set (snd (validateAndRefineSteps_run asciiPlatform ex_steps ex_structure ex_options))
   \<and> (\<exists>t. (0, ex_step ''Welcome to the project'' ''README.md'' 1, t)
              \<in> set (survivors asciiPlatform (files ex_structure) 0 ex_steps)
          \<and> sfile t = Some ''README.md'')"
proof -
  have m: "hasWelcomeMarker (ex_step ''Welcome to the project'' ''README.md'' 1)"
    by code_simp
  have k: "Some ''README.md'' \<notin> knownFiles ex_structure"
    by (simp add: knownFiles_def ex_structure_def ex_file_def)
  have p: "processedSteps ex_steps ex_options =
      ex_step ''Welcome to the project'' ''README.md'' 1 # tl ex_steps"
    by (simp add: ex_processed) (simp add: ex_steps_def)
  have f: "sfile (ex_step ''Welcome to the project'' ''README.md'' 1) = Some ''README.md''"
    by (simp add: ex_step_def)
  from C1_welcome_exemption [of asciiPlatform ex_steps ex_structure ex_options] m p
  have "WelcomeDetected \<in> set (snd (validateAndRefineSteps_run asciiPlatform ex_steps ex_structure ex_options))"
    and "\<exists>t. (0, ex_step ''Welcome to the project'' ''README.md'' 1, t)
              \<in> set (survivors asciiPlatform (files ex_structure) 0 (processedSteps ex_steps ex_options))
          \<and> sfile t = sfile (ex_step ''Welcome to the project'' ''README.md'' 1)"
    by blast+
  with m k show ?thesis by (simp add: ex_processed f)
qed


subsection \<open>The line check\<close>

text \<open>
  Claim C8, as the specification states it, fails: the clamp is applied only when the
  step's file is found among the analysed files. The welcome step of index 0 skips the file
  check, so its file need not be an analysed one, and then a line below 1 is emitted as it
  came.
\<close>

theorem C8_welcome_line_counterexample:
  "map line (validateAndRefineSteps asciiPlatform [ex_step ''Welcome'' ''README.md'' (- 5)] ex_structure ex_options)
     = [Some (- 5)]"
  by code_simp

text \<open>
  The test \<open>if (step.line)\<close> also takes a line of 0 for a missing line: such a step is
  emitted without a line.
\<close>

lemma line_zero_example:
  "map line (validateAndRefineSteps asciiPlatform [ex_step ''Util'' ''src/util.ts'' 0] ex_structure ex_options) = [None]"
  by code_simp

text \<open>
  Claim C8, amended. For every emitted step whose input step has a line \<open>l\<close>: when
  \<open>l\<close> is below 1, is not 0, and the emitted file is an analysed file (which holds for
  every step that is not the exempt welcome step), the emitted line is 1; and when \<open>l\<close>
  is at least 1 the emitted line is \<open>l\<close>, whatever its size.
\<close>

theorem C8_line_clamp_amended:
  "validateAndRefineSteps pf steps struct options =
        map (\<lambda>(i, s, t). t) (survivors pf (files struct) 0 (processedSteps steps options))
   \<and> (\<forall>(i, s, t) \<in> set (survivors pf (files struct) 0 (processedSteps steps options)).
        \<forall>l. line s = Some l \<longrightarrow>
          (l < 1 \<and> l \<noteq> 0 \<and> sfile t \<in> knownFiles struct \<longrightarrow> line t = Some 1)
        \<and> (l < 1 \<and> l \<noteq> 0 \<and> \<not> isWelcomeStep i s \<longrightarrow> line t = Some 1)
        \<and> (1 \<le> l \<longrightarrow> line t = Some l))"
proof (intro conjI)
  let ?ps = "processedSteps steps options"
  let ?fs = "files struct"
  show "validateAndRefineSteps pf steps struct options = map (\<lambda>(i, s, t). t) (survivors pf ?fs 0 ?ps)"
    by (rule validateAndRefineSteps_survivors)
  show "\<forall>(i, s, t) \<in> set (survivors pf ?fs 0 ?ps).
        \<forall>l. line s = Some l \<longrightarrow>
          (l < 1 \<and> l \<noteq> 0 \<and> sfile t \<in> knownFiles struct \<longrightarrow> line t = Some 1)
        \<and> (l < 1 \<and> l \<noteq> 0 \<and> \<not> isWelcomeStep i s \<longrightarrow> line t = Some 1)
        \<and> (1 \<le> l \<longrightarrow> line t = Some l)"
  proof (clarify)
    fix i s t l
    assume m: "(i, s, t) \<in> set (survivors pf ?fs 0 ?ps)" and l: "line s = Some l"
    from survivors_at [OF m] have r: "stepResult pf ?fs i s = Some t" by blast
    note ln = stepResult_line [OF r l]
    have known: "\<not> isWelcomeStep i s \<Longrightarrow> sfile t \<in> knownFiles struct"
      using stepResult_file_known [OF r] by (simp add: knownFiles_def)
    show "(l < 1 \<and> l \<noteq> 0 \<and> sfile t \<in> knownFiles struct \<longrightarrow> line t = Some 1)
        \<and> (l < 1 \<and> l \<noteq> 0 \<and> \<not> isWelcomeStep i s \<longrightarrow> line t = Some 1)
        \<and> (1 \<le> l \<longrightarrow> line t = Some l)"
      using ln known by (simp add: knownFiles_def)
  qed
qed

theorem C8_line_clamp_amended_witness:
  "(1, ex_step ''Real'' ''lib/real.ts'' (- 4), ex_step ''Real'' ''src/Real.ts'' 1)
      \<in> set (survivors asciiPlatform (files ex_structure) 0 (processedSteps ex_steps ex_options))
   \<and> line (ex_step ''Real'' ''lib/real.ts'' (- 4)) = Some (- 4)
   \<and> \<not> isWelcomeStep 1 (ex_step ''Real'' ''lib/real.ts'' (- 4))
   \<and> line (ex_step ''Real'' ''src/Real.ts'' 1) = Some 1"
proof -
  have m: "(1, ex_step ''Real'' ''lib/real.ts'' (- 4), ex_step ''Real'' ''src/Real.ts'' 1)
      \<in> set (survivors asciiPlatform (files ex_structure) 0 (processedSteps ex_steps ex_options))"
    by (simp add: ex_processed ex_survivors)
  have l: "line (ex_step ''Real'' ''lib/real.ts'' (- 4)) = Some (- 4)"
    by (simp add: ex_step_def)
  have w: "\<not> isWelcomeStep 1 (ex_step ''Real'' ''lib/real.ts'' (- 4))"
    by (simp add: isWelcomeStep_def)
  from C8_line_clamp_amended [of asciiPlatform ex_steps ex_structure ex_options] m l w
  have "line (ex_step ''Real'' ''src/Real.ts'' 1) = Some 1"
    by fastforce
  with m l w show ?thesis by blast
qed

subsection \<open>The fields the validator leaves alone\<close>

text \<open>
  Claim C10, as the specification states it, fails: a surviving step whose line is 0 is
  emitted without a line. The line differs between the input step and its emitted
  counterpart, and not by clamping, which would have made it 1.
\<close>

theorem C10_line_removed_counterexample:
  "survivors asciiPlatform (files ex_structure) 0
       (processedSteps [ex_step ''Util'' ''src/util.ts'' 0] ex_options)
     = [(0, ex_step ''Util'' ''src/util.ts'' 0, (ex_step ''Util'' ''src/util.ts'' 0)\<lparr>line := None\<rparr>)]
   \<and> line (ex_step ''Util'' ''src/util.ts'' 0) = Some 0
   \<and> Some ''src/util.ts'' \<in> knownFiles ex_structure"
  by code_simp

text \<open>
  Claim C10, amended. Every emitted step has the title, the description and the selection
  of its input step: it is the input step with, at most, another file and another line. The
  file differs only by the rewrite to the same-basename match. When the line of the input
  step is not 0, the line differs only by clamping: the emitted line is the line of the
  input step (also a missing one), or it is 1 and the line of the input step was below 1.
\<close>

theorem C10_frame_amended:
  "validateAndRefineSteps pf steps struct options =
        map (\<lambda>(i, s, t). t) (survivors pf (files struct) 0 (processedSteps steps options))
   \<and> (\<forall>(i, s, t) \<in> set (survivors pf (files struct) 0 (processedSteps steps options)).
        title t = title s \<and> description t = description s \<and> selection t = selection s
        \<and> t = s\<lparr>sfile := sfile t, line := line t\<rparr>
        \<and> (sfile t \<noteq> sfile s \<longrightarrow>
             (\<exists>target. sfile s = Some target \<and> sfile t = sameBasenameMatch pf struct target))
        \<and> (line s \<noteq> Some 0 \<longrightarrow>
             line t = line s \<or> (line t = Some 1 \<and> (\<exists>l < 1. line s = Some l))))"
proof (intro conjI)
  let ?ps = "processedSteps steps options"
  let ?fs = "files struct"
  show "validateAndRefineSteps pf steps struct options = map (\<lambda>(i, s, t). t) (survivors pf ?fs 0 ?ps)"
    by (rule validateAndRefineSteps_survivors)
  show "\<forall>(i, s, t) \<in> set (survivors pf ?fs 0 ?ps).
        title t = title s \<and> description t = description s \<and> selection t = selection s
        \<and> t = s\<lparr>sfile := sfile t, line := line t\<rparr>
        \<and> (sfile t \<noteq> sfile s \<longrightarrow>
             (\<exists>target. sfile s = Some target \<and> sfile t = sameBasenameMatch pf struct target))
        \<and> (line s \<noteq> Some 0 \<longrightarrow>
             line t = line s \<or> (line t = Some 1 \<and> (\<exists>l < 1. line s = Some l)))"
  proof (clarify)
    fix i s t
    assume m: "(i, s, t) \<in> set (survivors pf ?fs 0 ?ps)"
    from survivors_at [OF m] have r: "stepResult pf ?fs i s = Some t" by blast
    note fr = stepResult_frame [OF r]
    then have eq: "t = s\<lparr>sfile := sfile t, line := line t\<rparr>"
      by (cases s; cases t) simp
    from r obtain s' where c: "fst (checkFile pf ?fs i s) = Proceed s'"
      and t: "t = toCodeTourStep (validateLine ?fs s')"
      by (rule stepResult_cases)
    have ft: "sfile t = sfile s'"
      by (simp add: t toCodeTourStep_frame validateLine_frame)
    have rw: "sfile t \<noteq> sfile s \<longrightarrow>
             (\<exists>target. sfile s = Some target \<and> sfile t = sameBasenameMatch pf struct target)"
      using checkFile_Proceed_cases [OF c] ft
      by (auto simp: findSimilarFile_sameBasenameMatch)
    have ln: "line s \<noteq> Some 0 \<longrightarrow>
             line t = line s \<or> (line t = Some 1 \<and> (\<exists>l < 1. line s = Some l))"
      using stepResult_line_cases [OF r] by blast
    from fr eq rw ln
    show "title t = title s \<and> description t = description s \<and> selection t = selection s
        \<and> t = s\<lparr>sfile := sfile t, line := line t\<rparr>
        \<and> (sfile t \<noteq> sfile s \<longrightarrow>
             (\<exists>target. sfile s = Some target \<and> sfile t = sameBasenameMatch pf struct target))
        \<and> (line s \<noteq> Some 0 \<longrightarrow>
             line t = line s \<or> (line t = Some 1 \<and> (\<exists>l < 1. line s = Some l)))"
      by blast
  qed
qed

theorem C10_frame_amended_witness:
  "(1, ex_step ''Real'' ''lib/real.ts'' (- 4), ex_step ''Real'' ''src/Real.ts'' 1)
      \<in> set (survivors asciiPlatform (files ex_structure) 0 (processedSteps ex_steps ex_options))
   \<and> sfile (ex_step ''Real'' ''src/Real.ts'' 1) \<noteq> sfile (ex_step ''Real'' ''lib/real.ts'' (- 4))
   \<and> line (ex_step ''Real'' ''lib/real.ts'' (- 4)) \<noteq> Some 0
   \<and> title (ex_step ''Real'' ''src/Real.ts'' 1) = title (ex_step ''Real'' ''lib/real.ts'' (- 4))
   \<and> description (ex_step ''Real'' ''src/Real.ts'' 1) = description (ex_step ''Real'' ''lib/real.ts'' (- 4))
   \<and> sfile (ex_step ''Real'' ''src/Real.ts'' 1) = sameBasenameMatch asciiPlatform ex_structure ''lib/real.ts''
   \<and> (line (ex_step ''Real'' ''src/Real.ts'' 1) = line (ex_step ''Real'' ''lib/real.ts'' (- 4))
        \<or> (line (ex_step ''Real'' ''src/Real.ts'' 1) = Some 1
             \<and> (\<exists>l < 1. line (ex_step ''Real'' ''lib/real.ts'' (- 4)) = Some l)))"
proof -
  have m: "(1, ex_step ''Real'' ''lib/real.ts'' (- 4), ex_step ''Real'' ''src/Real.ts'' 1)
      \<in> set (survivors asciiPlatform (files ex_structure) 0 (processedSteps ex_steps ex_options))"
    by (simp add: ex_processed ex_survivors)
  have d: "sfile (ex_step ''Real'' ''src/Real.ts'' 1) \<noteq> sfile (ex_step ''Real'' ''lib/real.ts'' (- 4))"
    by (simp add: ex_step_def)
  have s: "sfile (ex_step ''Real'' ''lib/real.ts'' (- 4)) = Some ''lib/real.ts''"
    by (simp add: ex_step_def)
  have z: "line (ex_step ''Real'' ''lib/real.ts'' (- 4)) \<noteq> Some 0"
    by (simp add: ex_step_def)
  from C10_frame_amended [of asciiPlatform ex_steps ex_structure ex_options] m d z
  have "title (ex_step ''Real'' ''src/Real.ts'' 1) = title (ex_step ''Real'' ''lib/real.ts'' (- 4))"
    and "description (ex_step ''Real'' ''src/Real.ts'' 1) = description (ex_step ''Real'' ''lib/real.ts'' (- 4))"
    and "\<exists>target. sfile (ex_step ''Real'' ''lib/real.ts'' (- 4)) = Some target
           \<and> sfile (ex_step ''Real'' ''src/Real.ts'' 1) = sameBasenameMatch asciiPlatform ex_structure target"
    and "line (ex_step ''Real'' ''src/Real.ts'' 1) = line (ex_step ''Real'' ''lib/real.ts'' (- 4))
        \<or> (line (ex_step ''Real'' ''src/Real.ts'' 1) = Some 1
             \<and> (\<exists>l < 1. line (ex_step ''Real'' ''lib/real.ts'' (- 4)) = Some l))"
    by fastforce+
  with m d s z show ?thesis by simp
qed

section \<open>Properties of the batch generator\<close>

subsection \<open>The extraction of the array text\<close>

lemma dropWhile_notin: "c \<notin> set pre \<Longrightarrow> dropWhile (\<lambda>x. x \<noteq> c) (pre @ c # rest) = c # rest"
  by (induction pre) auto

lemma upToLast_append: "c \<notin> set post \<Longrightarrow> upToLast c (mid @ c # post) = mid @ [c]"
proof -
  assume "c \<notin> set post"
  then have "\<forall>x \<in> set (rev post). x \<noteq> c" by auto
  then show ?thesis
    by (simp add: upToLast_def dropWhile_append3)
qed

lemma jsonMatch_extract:
  assumes "CHR ''['' \<notin> set pre" and "CHR '']'' \<notin> set post"
  shows "jsonMatch (pre @ [CHR ''[''] @ mid @ [CHR '']''] @ post) = Some ([CHR ''[''] @ mid @ [CHR '']''])"
  using assms by (simp add: jsonMatch_def dropWhile_notin upToLast_append)

lemma jsonMatch_None_no_open: "CHR ''['' \<notin> set text \<Longrightarrow> jsonMatch text = None"
proof -
  assume "CHR ''['' \<notin> set text"
  then have "dropWhile (\<lambda>x. x \<noteq> CHR ''['') text = []" by auto
  then show ?thesis unfolding jsonMatch_def by (simp only: list.case)
qed

lemma jsonMatch_Some_decompose:
  assumes "jsonMatch text = Some m"
  shows "\<exists>pre mid post. text = pre @ m @ post \<and> m = [CHR ''[''] @ mid @ [CHR '']'']
           \<and> CHR ''['' \<notin> set pre \<and> CHR '']'' \<notin> set post"
proof -
  let ?d = "dropWhile (\<lambda>x. x \<noteq> CHR ''['') text"
  let ?pre = "takeWhile (\<lambda>x. x \<noteq> CHR ''['') text"
  from assms obtain b rest where d: "?d = b # rest" and r: "CHR '']'' \<in> set rest"
    and m: "m = b # upToLast CHR '']'' rest"
    by (auto simp: jsonMatch_def split: list.splits if_splits)
  have b: "b = CHR ''[''"
    using d hd_dropWhile [of "\<lambda>x. x \<noteq> CHR ''[''" "text"] by force
  from r obtain mid post where rest: "rest = mid @ CHR '']'' # post" and np: "CHR '']'' \<notin> set post"
    using split_list_last by fastforce
  have "text = ?pre @ ?d" by simp
  then have "text = ?pre @ m @ post"
    by (simp add: d m rest upToLast_append [OF np])
  moreover have "m = [CHR ''[''] @ mid @ [CHR '']'']"
    by (simp add: m b rest upToLast_append [OF np])
  moreover have "CHR ''['' \<notin> set ?pre"
    using set_takeWhileD by fastforce
  ultimately show ?thesis using np by blast
qed


lemma enumerate_slice_map:
  "map (\<lambda>(idx, batch). f (g + idx)) (enumerate 0 (slice g (g + n) bs))
     = map f [g..<min (g + n) (length bs)]"
proof (rule nth_equalityI)
  have len: "length (slice g (g + n) bs) = min (g + n) (length bs) - g"
    by (auto simp: slice_def min_def)
  show "length (map (\<lambda>(idx, batch). f (g + idx)) (enumerate 0 (slice g (g + n) bs)))
          = length (map f [g..<min (g + n) (length bs)])"
    by (simp add: len)
  fix i
  assume "i < length (map (\<lambda>(idx, batch). f (g + idx)) (enumerate 0 (slice g (g + n) bs)))"
  then have i: "i < min (g + n) (length bs) - g" by (simp add: len)
  then have "g + i < min (g + n) (length bs)" by linarith
  then have "[g..<min (g + n) (length bs)] ! i = g + i" by (rule nth_upt)
  with i show "map (\<lambda>(idx, batch). f (g + idx)) (enumerate 0 (slice g (g + n) bs)) ! i
                 = map f [g..<min (g + n) (length bs)] ! i"
    by (simp add: len nth_enumerate_eq)
qed

lemma groupsFrom_concat:
  "groupsFrom parse events g batches allSteps =
     allSteps @ concat (map (\<lambda>k. runBatch parse (events (Suc k))) [g..<length batches])"
proof (induction parse events g batches allSteps rule: groupsFrom.induct)
  case (1 parse events g batches allSteps)
  show ?case
  proof (cases "g < length batches")
    case False
    then show ?thesis by (subst groupsFrom.simps) simp
  next
    case True
    let ?n = "CONCURRENT_BATCHES"
    let ?f = "\<lambda>k. runBatch parse (events (Suc k))"
    have grp: "map (\<lambda>(idx, batch). runBatch parse (events (Suc (g + idx))))
                 (enumerate 0 (slice g (g + ?n) batches)) = map ?f [g..<min (g + ?n) (length batches)]"
      using enumerate_slice_map [of ?f g ?n batches] by simp
    have split: "[g..<length batches] = [g..<min (g + ?n) (length batches)] @ [g + ?n..<length batches]"
    proof (cases "g + ?n \<le> length batches")
      case True
      then obtain k where k: "length batches = (g + ?n) + k"
        using le_Suc_ex by blast
      have "[g..<(g + ?n) + k] = [g..<g + ?n] @ [g + ?n..<(g + ?n) + k]"
        by (rule upt_add_eq_append) simp
      then show ?thesis by (simp add: k)
    next
      case False
      then show ?thesis by (simp add: min_def)
    qed
    have "groupsFrom parse events g batches allSteps =
        groupsFrom parse events (g + ?n) batches
          (allSteps @ concat (map ?f [g..<min (g + ?n) (length batches)]))"
      using True by (subst groupsFrom.simps) (simp add: Let_def grp)
    also have "\<dots> = (allSteps @ concat (map ?f [g..<min (g + ?n) (length batches)]))
                  @ concat (map ?f [g + ?n..<length batches])"
      using "1.IH" [OF True refl refl] by (simp add: grp)
    also have "\<dots> = allSteps @ concat (map ?f [g..<length batches])"
    proof -
      have "concat (map ?f [g..<length batches]) =
          concat (map ?f ([g..<min (g + ?n) (length batches)] @ [g + ?n..<length batches]))"
        using split by simp
      then show ?thesis by simp
    qed
    finally show ?thesis .
  qed
qed


subsection \<open>parseStepsFromResponse\<close>

text \<open>
  Claim C3, as the specification states it, fails: the text taken from the response is not
  the first balanced array literal but everything from the first \<open>[\<close> to the last
  \<open>]\<close>. With a bracket in the trailing prose the two differ (and \<open>JSON.parse\<close>
  then rejects the longer text, so the steps are lost).
\<close>

theorem C3_first_array_counterexample:
  "jsonMatch ''Steps: [1] and see [2] too'' = Some ''[1] and see [2]''
   \<and> firstBalancedArray ''Steps: [1] and see [2] too'' = Some ''[1]''"
  by code_simp

text \<open>
  Claim C3, amended. The parser takes the text from the first \<open>[\<close> to the last
  \<open>]\<close> of the response, which is the array itself when the prose before it has no
  \<open>[\<close> and the prose after it has no \<open>]\<close>. It returns the parsed elements when
  that text parses to an array, and the empty list in every other case: no content, no
  such text, a parse error, or a value that is not an array. The result is always a list:
  nothing is thrown to the caller.
\<close>

theorem C3_parse_amended:
  "(CHR ''['' \<notin> set pre \<and> CHR '']'' \<notin> set post \<longrightarrow>
      jsonMatch (pre @ [CHR ''[''] @ mid @ [CHR '']''] @ post) = Some ([CHR ''[''] @ mid @ [CHR '']'']))
   \<and> (\<forall>m. jsonMatch response = Some m \<longrightarrow>
         (\<exists>pre mid post. response = pre @ m @ post \<and> m = [CHR ''[''] @ mid @ [CHR '']'']
            \<and> CHR ''['' \<notin> set pre \<and> CHR '']'' \<notin> set post))
   \<and> (\<forall>m steps props. jsonMatch response = Some m \<and> parse m = Some (JArray steps props) \<longrightarrow>
         parseStepsFromResponse parse (Some response) = steps)
   \<and> (jsonMatch response = None \<longrightarrow> parseStepsFromResponse parse (Some response) = [])
   \<and> (\<forall>m. jsonMatch response = Some m \<and> parse m = None \<longrightarrow>
         parseStepsFromResponse parse (Some response) = [])
   \<and> (\<forall>m v. jsonMatch response = Some m \<and> parse m = Some v \<and> (\<forall>steps props. v \<noteq> JArray steps props) \<longrightarrow>
         parseStepsFromResponse parse (Some response) = [])
   \<and> parseStepsFromResponse parse None = []"
proof (intro conjI allI impI)
  show "jsonMatch (pre @ [CHR ''[''] @ mid @ [CHR '']''] @ post) = Some ([CHR ''[''] @ mid @ [CHR '']''])"
    if "CHR ''['' \<notin> set pre \<and> CHR '']'' \<notin> set post"
    using that jsonMatch_extract by blast
  show "\<exists>pre mid post. response = pre @ m @ post \<and> m = [CHR ''[''] @ mid @ [CHR '']'']
            \<and> CHR ''['' \<notin> set pre \<and> CHR '']'' \<notin> set post"
    if "jsonMatch response = Some m" for m
    using that by (rule jsonMatch_Some_decompose)
  show "parseStepsFromResponse parse (Some response) = steps"
    if "jsonMatch response = Some m \<and> parse m = Some (JArray steps props)" for m steps props
    using that by (simp add: parseStepsFromResponse_def parseStepsFromResponse_try_def)
  show "parseStepsFromResponse parse (Some response) = []" if "jsonMatch response = None"
    using that by (simp add: parseStepsFromResponse_def parseStepsFromResponse_try_def)
  show "parseStepsFromResponse parse (Some response) = []"
    if "jsonMatch response = Some m \<and> parse m = None" for m
    using that by (simp add: parseStepsFromResponse_def parseStepsFromResponse_try_def)
  show "parseStepsFromResponse parse (Some response) = []"
    if "jsonMatch response = Some m \<and> parse m = Some v \<and> (\<forall>steps props. v \<noteq> JArray steps props)" for m v
    using that
    by (cases v) (simp_all add: parseStepsFromResponse_def parseStepsFromResponse_try_def)
  show "parseStepsFromResponse parse None = []"
    by (simp add: parseStepsFromResponse_def parseStepsFromResponse_try_def)
qed

theorem C3_parse_amended_witness:
  "CHR ''['' \<notin> set ''Here you are: '' \<and> CHR '']'' \<notin> set '' Enjoy''
   \<and> jsonMatch ''Here you are: [2, 3] Enjoy'' = Some ''[2, 3]''
   \<and> ex_parse ''[2, 3]'' = Some (JArray [JNum 2, JNum 3] [])
   \<and> parseStepsFromResponse ex_parse (Some ''Here you are: [2, 3] Enjoy'') = [JNum 2, JNum 3]"
proof -
  have a: "CHR ''['' \<notin> set ''Here you are: '' \<and> CHR '']'' \<notin> set '' Enjoy''"
    by simp
  have p: "ex_parse ''[2, 3]'' = Some (JArray [JNum 2, JNum 3] [])"
    by (simp add: ex_parse_def)
  note c3 = C3_parse_amended [of "''Here you are: ''" "'' Enjoy''" "''2, 3''"
      "''Here you are: [2, 3] Enjoy''" ex_parse]
  from c3 a have m: "jsonMatch (''Here you are: '' @ [CHR ''[''] @ ''2, 3'' @ [CHR '']''] @ '' Enjoy'')
      = Some ([CHR ''[''] @ ''2, 3'' @ [CHR '']''])"
    by blast
  then have m': "jsonMatch ''Here you are: [2, 3] Enjoy'' = Some ''[2, 3]''"
    by simp
  from c3 m' p have "parseStepsFromResponse ex_parse (Some ''Here you are: [2, 3] Enjoy'') = [JNum 2, JNum 3]"
    by blast
  with a m' p show ?thesis by blast
qed

subsection \<open>Failure isolation of the batches\<close>

lemma runBatch_failure:
  "generateBatchWithTimeout parse ev = Inl err \<Longrightarrow> runBatch parse ev = []"
  by (simp add: runBatch_def)

lemma runBatch_timeout: "runBatch parse TimerFiresFirst = []"
  by (simp add: runBatch_def generateBatchWithTimeout_def)

lemma runBatch_rejects: "runBatch parse (RequestSettlesFirst (Rejects message)) = []"
  by (simp add: runBatch_def generateBatchWithTimeout_def generateBatchSteps_def)

lemma runBatch_malformed:
  "parseStepsFromResponse_try parse content = Inl err \<Longrightarrow>
     runBatch parse (RequestSettlesFirst (Resolves content)) = []"
  by (simp add: runBatch_def generateBatchWithTimeout_def generateBatchSteps_def
      parseStepsFromResponse_def)

lemma generateTourInBatches_concat:
  "generateTourInBatches pf parse struct env events =
     (case generateWelcomePage pf parse struct env of
        NeverReturns \<Rightarrow> NeverReturns
      | Throws \<Rightarrow> Throws
      | Returns welcomeSteps \<Rightarrow>
          if welcomeLogThrows welcomeSteps then Throws
          else Returns (welcomeSteps @ concat (map (\<lambda>j. runBatch parse (events (Suc j)))
                 [0..<length (createFileBatches pf (filterImportantFiles pf (files struct)))])))"
  by (simp add: generateTourInBatches_def Let_def groupsFrom_concat split: call_result.splits)

lemma upt_split_at:
  assumes "j < n"
  shows "[0..<n] = [0..<j] @ [j] @ [Suc j..<n]"
proof -
  from assms have "[0..<n] = [0..<j] @ [j..<n]"
    using upt_add_eq_append [of 0 j "n - j"] by simp
  moreover from assms have "[j..<n] = j # [Suc j..<n]"
    by (simp add: upt_conv_Cons)
  ultimately show ?thesis by simp
qed

lemma contributions_update:
  assumes "1 \<le> k \<and> k \<le> n"
  shows "concat (map (\<lambda>j. runBatch parse ((events(k := ev)) (Suc j))) [0..<n])
       = concat (map (\<lambda>j. runBatch parse (events (Suc j))) [0..<k - 1])
         @ runBatch parse ev
         @ concat (map (\<lambda>j. runBatch parse (events (Suc j))) [k..<n])"
proof -
  from assms obtain j where j: "k = Suc j" and jn: "j < n"
    by (cases k) auto
  have before: "map (\<lambda>i. runBatch parse ((events(k := ev)) (Suc i))) [0..<j]
                 = map (\<lambda>i. runBatch parse (events (Suc i))) [0..<j]"
    by (rule map_cong) (auto simp: j)
  have after: "map (\<lambda>i. runBatch parse ((events(k := ev)) (Suc i))) [Suc j..<n]
                 = map (\<lambda>i. runBatch parse (events (Suc i))) [Suc j..<n]"
    by (rule map_cong) (auto simp: j)
  have mid: "runBatch parse ((events(k := ev)) (Suc j)) = runBatch parse ev"
    by (simp add: j)
  have "concat (map (\<lambda>i. runBatch parse ((events(k := ev)) (Suc i))) [0..<n])
      = concat (map (\<lambda>i. runBatch parse ((events(k := ev)) (Suc i))) ([0..<j] @ [j] @ [Suc j..<n]))"
    using upt_split_at [OF jn] by simp
  also have "\<dots> = concat (map (\<lambda>i. runBatch parse (events (Suc i))) [0..<j])
        @ runBatch parse ev
        @ concat (map (\<lambda>i. runBatch parse (events (Suc i))) [Suc j..<n])"
    by (simp only: map_append concat_append list.map concat.simps before after mid
        append_Nil2 append_assoc)
  finally show ?thesis by (simp add: j)
qed

text \<open>
  Claim C4. A batch whose race is won by the timer, whose request is rejected, or whose
  response does not parse, contributes the empty list, the same in the three cases. What
  the run does is decided by the welcome page alone: when the welcome page has returned
  and its three console lines are written, the run returns the welcome step followed by
  the contributions of the batches in the order of their numbers, whatever happens to the
  batches; and whatever happens to batch \<open>k\<close>, the steps before and after its
  contribution are those of the other batches, unchanged.
\<close>

theorem C4_batch_failure_isolation:
  "runBatch parse TimerFiresFirst = []
   \<and> runBatch parse (RequestSettlesFirst (Rejects message)) = []
   \<and> (\<forall>err. parseStepsFromResponse_try parse content = Inl err \<longrightarrow>
         runBatch parse (RequestSettlesFirst (Resolves content)) = [])
   \<and> (\<forall>ev err. generateBatchWithTimeout parse ev = Inl err \<longrightarrow> runBatch parse ev = [])
   \<and> generateTourInBatches pf parse struct env events =
        (case generateWelcomePage pf parse struct env of
           NeverReturns \<Rightarrow> NeverReturns
         | Throws \<Rightarrow> Throws
         | Returns welcomeSteps \<Rightarrow>
             if welcomeLogThrows welcomeSteps then Throws
             else Returns (welcomeSteps
               @ concat (map (\<lambda>j. runBatch parse (events (Suc j)))
                   [0..<length (createFileBatches pf (filterImportantFiles pf (files struct)))])))
   \<and> (\<forall>k ev. 1 \<le> k \<and> k \<le> length (createFileBatches pf (filterImportantFiles pf (files struct))) \<longrightarrow>
        generateTourInBatches pf parse struct env (events(k := ev)) =
          (case generateWelcomePage pf parse struct env of
             NeverReturns \<Rightarrow> NeverReturns
           | Throws \<Rightarrow> Throws
           | Returns welcomeSteps \<Rightarrow>
               if welcomeLogThrows welcomeSteps then Throws
               else Returns (welcomeSteps
                 @ concat (map (\<lambda>j. runBatch parse (events (Suc j))) [0..<k - 1])
                 @ runBatch parse ev
                 @ concat (map (\<lambda>j. runBatch parse (events (Suc j)))
                     [k..<length (createFileBatches pf (filterImportantFiles pf (files struct)))]))))"
proof (intro conjI allI impI)
  let ?n = "length (createFileBatches pf (filterImportantFiles pf (files struct)))"
  show "runBatch parse TimerFiresFirst = []"
    by (rule runBatch_timeout)
  show "runBatch parse (RequestSettlesFirst (Rejects message)) = []"
    by (rule runBatch_rejects)
  show "runBatch parse (RequestSettlesFirst (Resolves content)) = []"
    if "parseStepsFromResponse_try parse content = Inl err" for err
    using that by (rule runBatch_malformed)
  show "runBatch parse ev = []" if "generateBatchWithTimeout parse ev = Inl err" for ev err
    using that by (rule runBatch_failure)
  show "generateTourInBatches pf parse struct env events =
        (case generateWelcomePage pf parse struct env of
           NeverReturns \<Rightarrow> NeverReturns
         | Throws \<Rightarrow> Throws
         | Returns welcomeSteps \<Rightarrow>
             if welcomeLogThrows welcomeSteps then Throws
             else Returns (welcomeSteps
               @ concat (map (\<lambda>j. runBatch parse (events (Suc j))) [0..<?n])))"
    by (rule generateTourInBatches_concat)
  show "generateTourInBatches pf parse struct env (events(k := ev)) =
          (case generateWelcomePage pf parse struct env of
             NeverReturns \<Rightarrow> NeverReturns
           | Throws \<Rightarrow> Throws
           | Returns welcomeSteps \<Rightarrow>
               if welcomeLogThrows welcomeSteps then Throws
               else Returns (welcomeSteps
                 @ concat (map (\<lambda>j. runBatch parse (events (Suc j))) [0..<k - 1])
                 @ runBatch parse ev
                 @ concat (map (\<lambda>j. runBatch parse (events (Suc j))) [k..<?n])))"
    if k: "1 \<le> k \<and> k \<le> ?n" for k ev
    by (simp only: generateTourInBatches_concat contributions_update [OF k])
qed

theorem C4_batch_failure_isolation_witness:
  "(1::nat) \<le> 1 \<and> 1 \<le> length (createFileBatches asciiPlatform (filterImportantFiles asciiPlatform (files ex_project)))
   \<and> generateWelcomePage asciiPlatform ex_parse ex_project ex_env
        = Returns [fallbackStep asciiPlatform ex_project ex_env]
   \<and> generateTourInBatches asciiPlatform ex_parse ex_project ex_env ex_events =
        Returns ([fallbackStep asciiPlatform ex_project ex_env] @ [JNum 2, JNum 3, JNum 2, JNum 3])
   \<and> generateTourInBatches asciiPlatform ex_parse ex_project ex_env (ex_events(1 := TimerFiresFirst)) =
        Returns ([fallbackStep asciiPlatform ex_project ex_env] @ [JNum 2, JNum 3])"
proof -
  have n: "length (createFileBatches asciiPlatform (filterImportantFiles asciiPlatform (files ex_project))) = 2"
    by code_simp
  have b: "runBatch ex_parse (ex_events k) = [JNum 2, JNum 3]" for k
    unfolding ex_events_def by code_simp
  have u: "[0..<2] = [0, Suc 0]" "[0..<(1::nat) - 1] = []" "[1..<2] = [Suc 0]" "[Suc 0..<2] = [Suc 0]"
    by (simp_all add: upt_rec)
  have w: "generateWelcomePage asciiPlatform ex_parse ex_project ex_env
        = Returns [fallbackStep asciiPlatform ex_project ex_env]"
    by (simp add: generateWelcomePage_def generateWelcomePage_try_def promptThrows_def
        convOrThrows_def ex_env_def)
  have l: "\<not> welcomeLogThrows [fallbackStep asciiPlatform ex_project ex_env]"
    by (simp add: welcomeLogThrows_def fallbackStep_def convOrThrows_def convThrows_def)
  note c4 = C4_batch_failure_isolation [of ex_parse "''x''" None asciiPlatform ex_project ex_env ex_events]
  from c4 have whole: "generateTourInBatches asciiPlatform ex_parse ex_project ex_env ex_events =
        Returns ([fallbackStep asciiPlatform ex_project ex_env] @ [JNum 2, JNum 3, JNum 2, JNum 3])"
    by (simp add: n u b w l)
  from c4 have t: "runBatch ex_parse TimerFiresFirst = []"
    by blast
  from c4 have "(1::nat) \<le> 1 \<and> 1 \<le> length (createFileBatches asciiPlatform (filterImportantFiles asciiPlatform (files ex_project))) \<longrightarrow>
      generateTourInBatches asciiPlatform ex_parse ex_project ex_env (ex_events(1 := TimerFiresFirst)) =
          (case generateWelcomePage asciiPlatform ex_parse ex_project ex_env of
             NeverReturns \<Rightarrow> NeverReturns
           | Throws \<Rightarrow> Throws
           | Returns welcomeSteps \<Rightarrow>
               if welcomeLogThrows welcomeSteps then Throws
               else Returns (welcomeSteps
                 @ concat (map (\<lambda>j. runBatch ex_parse (ex_events (Suc j))) [0..<1 - 1])
                 @ runBatch ex_parse TimerFiresFirst
                 @ concat (map (\<lambda>j. runBatch ex_parse (ex_events (Suc j)))
                     [1..<length (createFileBatches asciiPlatform (filterImportantFiles asciiPlatform (files ex_project)))])))"
    by blast
  then have one: "generateTourInBatches asciiPlatform ex_parse ex_project ex_env (ex_events(1 := TimerFiresFirst)) =
        Returns ([fallbackStep asciiPlatform ex_project ex_env] @ [JNum 2, JNum 3])"
    by (simp add: n u b t w l)
  from whole one w show ?thesis by (simp add: n)
qed

subsection \<open>The welcome page\<close>

lemma slice_first: "slice 0 1 (x # xs) = [x]"
  by (simp add: slice_def)








text \<open>
  The call to the service is not raced against a timer, and the prompt is built outside
  the \<open>try\<close>: a call that never settles keeps \<open>generateWelcomePage\<close> from returning,
  and a description of package.json that does not convert to a string makes it throw.
\<close>

lemma generateWelcomePage_never_settles:
  "\<not> promptThrows env \<Longrightarrow> welcomeService env = NeverSettles \<Longrightarrow>
     generateWelcomePage pf parse struct env = NeverReturns"
  by (simp add: generateWelcomePage_def)

lemma generateWelcomePage_prompt_throws:
  "promptThrows env \<Longrightarrow> generateWelcomePage pf parse struct env = Throws"
  by (simp add: generateWelcomePage_def)




section \<open>Properties of the structural analyzer\<close>

subsection \<open>The regex fallback\<close>

lemma oneLine_mono: "oneLine n e \<Longrightarrow> n \<le> m \<Longrightarrow> oneLine m e"
  by (simp add: oneLine_def)

lemma fallbackShaped_mono: "fallbackShaped n e \<Longrightarrow> n \<le> m \<Longrightarrow> fallbackShaped m e"
  by (auto simp: fallbackShaped_def intro: oneLine_mono)

lemma setChildren_sel [simp]:
  "etype (setChildren e cs) = etype e" "name (setChildren e cs) = name e"
  "efile (setChildren e cs) = efile e" "eline (setChildren e cs) = eline e"
  "endLine (setChildren e cs) = endLine e" "children (setChildren e cs) = cs"
  by (cases e; simp)+

lemma pushChild_shaped:
  assumes "\<forall>e \<in> set es. fallbackShaped n e" and "oneLine n m" and "children m = []"
  shows "\<forall>e \<in> set (pushChild i m es). fallbackShaped n e"
proof (cases "i < length es")
  case False
  with assms show ?thesis by (simp add: pushChild_def)
next
  case True
  with assms(1) have "fallbackShaped n (es ! i)" by simp
  with assms(2,3) have "fallbackShaped n (setChildren (es ! i) (children (es ! i) @ [m]))"
    by (auto simp: fallbackShaped_def oneLine_def)
  with assms(1) True show ?thesis
    by (auto simp: pushChild_def dest!: set_update_subset_insert [THEN subsetD])
qed

lemma regexClass_shaped:
  assumes "\<forall>e \<in> set (els st). fallbackShaped n e" and "index < n"
  shows "\<forall>e \<in> set (els (regexClass pats filePath trimmed indent index st)). fallbackShaped n e"
  using assms
  by (auto simp: regexClass_def fallbackShaped_def oneLine_def split: option.splits)

lemma regexMethod_shaped:
  assumes "\<forall>e \<in> set (els st). fallbackShaped n e" and "index < n"
  shows "\<forall>e \<in> set (els (regexMethod pats filePath trimmed indent index st)). fallbackShaped n e"
proof -
  let ?m = "CodeElement (if str_includes trimmed ''async'' then AsyncFunction else Function)
              (the (methodMatch pats trimmed)) filePath (index + 1) (index + 1) []"
  from assms(2) have m: "oneLine n ?m" "children ?m = []" "fallbackShaped n ?m"
    by (simp_all add: oneLine_def fallbackShaped_def)
  show ?thesis
    using assms(1) m pushChild_shaped [OF assms(1) m(1) m(2)]
    by (auto simp: regexMethod_def Let_def split: option.splits)
qed

lemma regexLine_shaped:
  assumes "\<forall>e \<in> set (els st). fallbackShaped n e" and "index < n"
  shows "\<forall>e \<in> set (els (regexLine pf pats filePath languageId ln index st)). fallbackShaped n e"
  using regexMethod_shaped [OF regexClass_shaped [OF assms] assms(2)] assms(1)
  by (simp add: regexLine_def Let_def)

lemma regexLines_shaped:
  assumes "\<forall>e \<in> set (els st). fallbackShaped n e" and "index + length lns \<le> n"
  shows "\<forall>e \<in> set (els (regexLines pf pats filePath languageId index lns st)). fallbackShaped n e"
  using assms
proof (induction lns arbitrary: index st)
  case Nil
  then show ?case by simp
next
  case (Cons ln rest)
  from Cons.prems have "index < n" by simp
  from regexLine_shaped [OF Cons.prems(1) this]
  have "\<forall>e \<in> set (els (regexLine pf pats filePath languageId ln index st)). fallbackShaped n e" .
  moreover from Cons.prems have "Suc index + length rest \<le> n" by simp
  ultimately have "\<forall>e \<in> set (els (regexLines pf pats filePath languageId (Suc index) rest
      (regexLine pf pats filePath languageId ln index st))). fallbackShaped n e"
    by (rule Cons.IH)
  then show ?case by simp
qed

lemma analyzeFileRegex_shaped:
  "\<forall>e \<in> set (elements (analyzeFileRegex pf pats filePath content languageId)).
     fallbackShaped (length (split CHR 0x0A content)) e"
  using regexLines_shaped [of "\<lparr>els = [], imps = [], exps = [], currentClass = None, currentIndent = 0\<rparr>"
      "length (split CHR 0x0A content)" 0 "split CHR 0x0A content" pf pats filePath languageId]
  by (simp add: analyzeFileRegex_def Let_def)


lemma analyzeFileTreeSitter_None:
  assumes "\<not> parserLoaded a \<or> getLanguage a languageId = None
           \<or> (\<exists>lang. getLanguage a languageId = Some lang \<and> lang content = None)"
  shows "analyzeFileTreeSitter pf a filePath content languageId = None"
  using assms by (auto simp: analyzeFileTreeSitter_def)

text \<open>
  Claim C9. Whenever the grammar path gives no result (no parser, no grammar for the
  language, or a parse that throws), \<open>analyzeFile\<close> returns the analysis of the regex
  fallback, and it returns an analysis in every case. Every element of the fallback, and
  every child of one, has a line between 1 and the number of lines of the file and an end
  line equal to its line.
\<close>

theorem C9_regex_fallback:
  "(\<forall>e \<in> set (elements (analyzeFileRegex pf pats filePath content languageId)).
      fallbackShaped (length (split CHR 0x0A content)) e)
   \<and> (\<not> parserLoaded a \<or> getLanguage a languageId = None
        \<or> (\<exists>lang. getLanguage a languageId = Some lang \<and> lang content = None) \<longrightarrow>
        analyzeFile pf a filePath content languageId
          = Some (analyzeFileRegex pf (patterns a) filePath content languageId))
   \<and> analyzeFile pf a filePath content languageId \<noteq> None"
proof (intro conjI impI)
  show "\<forall>e \<in> set (elements (analyzeFileRegex pf pats filePath content languageId)).
      fallbackShaped (length (split CHR 0x0A content)) e"
    by (rule analyzeFileRegex_shaped)
  show "analyzeFile pf a filePath content languageId
          = Some (analyzeFileRegex pf (patterns a) filePath content languageId)"
    if "\<not> parserLoaded a \<or> getLanguage a languageId = None
        \<or> (\<exists>lang. getLanguage a languageId = Some lang \<and> lang content = None)"
    using analyzeFileTreeSitter_None [OF that] by (simp add: analyzeFile_def)
  show "analyzeFile pf a filePath content languageId \<noteq> None"
    by (simp add: analyzeFile_def split: option.splits)
qed

theorem C9_regex_fallback_witness:
  "\<not> parserLoaded ex_analyzer
   \<and> analyzeFile asciiPlatform ex_analyzer ''src/foo.ts'' ex_content ''typescript''
       = Some \<lparr>fa_file = ''src/foo.ts'', language = ''typescript'',
               elements = [CodeElement Class ''Foo'' ''src/foo.ts'' 1 1
                             [CodeElement Function ''bar'' ''src/foo.ts'' 2 2 []]],
               fa_imports = [], fa_exports = []\<rparr>
   \<and> fallbackShaped 4 (CodeElement Class ''Foo'' ''src/foo.ts'' 1 1
                             [CodeElement Function ''bar'' ''src/foo.ts'' 2 2 []])"
proof -
  have p: "\<not> parserLoaded ex_analyzer"
    by (simp add: ex_analyzer_def)
  have r: "analyzeFileRegex asciiPlatform ex_patterns ''src/foo.ts'' ex_content ''typescript''
       = \<lparr>fa_file = ''src/foo.ts'', language = ''typescript'',
               elements = [CodeElement Class ''Foo'' ''src/foo.ts'' 1 1
                             [CodeElement Function ''bar'' ''src/foo.ts'' 2 2 []]],
               fa_imports = [], fa_exports = []\<rparr>"
    by code_simp
  have n: "length (split CHR 0x0A ex_content) = 4"
    by code_simp
  have pa: "patterns ex_analyzer = ex_patterns"
    by (simp add: ex_analyzer_def)
  note c9 = C9_regex_fallback [of asciiPlatform ex_patterns "''src/foo.ts''" ex_content "''typescript''" ex_analyzer]
  from c9 p have a: "analyzeFile asciiPlatform ex_analyzer ''src/foo.ts'' ex_content ''typescript''
      = Some (analyzeFileRegex asciiPlatform ex_patterns ''src/foo.ts'' ex_content ''typescript'')"
    by (simp add: pa)
  from c9 have "\<forall>e \<in> set (elements (analyzeFileRegex asciiPlatform ex_patterns ''src/foo.ts'' ex_content ''typescript'')).
      fallbackShaped (length (split CHR 0x0A ex_content)) e"
    by blast
  then have s: "fallbackShaped 4 (CodeElement Class ''Foo'' ''src/foo.ts'' 1 1
                             [CodeElement Function ''bar'' ''src/foo.ts'' 2 2 []])"
    by (simp add: r n)
  from p a s show ?thesis by (simp add: r)
qed

subsection \<open>The walk over the syntax tree\<close>

subsection \<open>Pushing into the tree of elements\<close>



lemma flatAll_append [simp]: "flatAll (xs @ ys) = flatAll xs @ flatAll ys"
  by (simp add: flatAll_def)

lemma flatAll_Cons [simp]: "flatAll (x # xs) = flat x @ flatAll xs"
  by (simp add: flatAll_def)

lemma flatAll_Nil [simp]: "flatAll [] = []"
  by (simp add: flatAll_def)









subsection \<open>Elements of single nodes\<close>










subsection \<open>The traversal\<close>



















section \<open>Properties of discovery\<close>

lemma foundFiles_limit:
  "0 < maxFilesToAnalyze s \<Longrightarrow> length (foundFiles ws s) \<le> 3 * maxFilesToAnalyze s"
  by (simp add: foundFiles_def findFiles_def searchLimit_def Let_def)

lemma foundFiles_unlimited:
  "maxFilesToAnalyze s = 0 \<Longrightarrow>
     foundFiles ws s
       = filter (\<lambda>p. glob ws (includePattern s) p \<and> \<not> glob ws excludePattern p) (listing ws)"
  by (simp add: foundFiles_def findFiles_def searchLimit_def Let_def)

lemma foundFiles_matching:
  "p \<in> set (foundFiles ws s) \<Longrightarrow>
     p \<in> set (listing ws) \<and> glob ws (includePattern s) p \<and> \<not> glob ws excludePattern p"
  by (auto simp: foundFiles_def findFiles_def Let_def split: option.splits dest: in_set_takeD)

lemma mset_prioritizeFiles: "mset (prioritizeFiles pf fs) = mset fs"
  by (simp add: prioritizeFiles_def)

lemma filesToAnalyze_subset: "set (filesToAnalyze pf ws s) \<subseteq> set (cleanedFiles pf ws s)"
proof -
  have "set (prioritizeFiles pf (cleanedFiles pf ws s)) = set (cleanedFiles pf ws s)"
    by (simp add: prioritizeFiles_def)
  then show ?thesis
    by (auto simp: filesToAnalyze_def Let_def slice_def dest: in_set_takeD)
qed

lemma analyzeFile_file:
  "analyzeFile pf a filePath content languageId = Some analysis \<Longrightarrow> fa_file analysis = filePath"
  by (auto simp: analyzeFile_def analyzeFileTreeSitter_def analyzeFileRegex_def Let_def
      split: option.splits if_splits)

lemma analyzeFile_Some: "\<exists>analysis. analyzeFile pf a filePath content languageId = Some analysis"
  by (simp add: analyzeFile_def split: option.splits)

lemma analyzeOne_files:
  "map fa_file (fst (analyzeOne pf a ws fileUri st))
     = map fa_file (fst st) @ (if openTextDocument ws fileUri \<noteq> None then [fileUri] else [])"
proof (cases "openTextDocument ws fileUri")
  case None
  then show ?thesis by (simp add: analyzeOne_def)
next
  case (Some doc)
  obtain content languageId where doc: "doc = (content, languageId)"
    by (cases doc)
  from analyzeFile_Some obtain analysis
    where an: "analyzeFile pf a fileUri content languageId = Some analysis"
    by blast
  from analyzeFile_file [OF an] Some doc an show ?thesis
    by (simp add: analyzeOne_def)
qed

lemma analyzeLoop_files:
  "map fa_file (fst (fold (analyzeOne pf a ws) fs st))
     = map fa_file (fst st) @ filter (\<lambda>p. openTextDocument ws p \<noteq> None) fs"
  by (induction fs arbitrary: st) (simp_all add: analyzeOne_files)

text \<open>
  Claim C6, as the specification states it, fails at limit 0: not every matching file that
  the exclusion patterns leave is returned. After the search a second filter removes every
  file whose lower-cased path contains one of nine texts, among them \<open>test/\<close> and
  \<open>config/\<close>. The file \<open>src/contest/a.ts\<close> matches the include pattern and none of
  the exclusion patterns, and it is not among the files to analyse, nor in the analysed
  project.
\<close>

theorem C6_second_filter_counterexample:
  "maxFilesToAnalyze (ex_settings 0) = 0
   \<and> ''src/contest/a.ts'' \<in> set (listing ex_contest_workspace)
   \<and> glob ex_contest_workspace (includePattern (ex_settings 0)) ''src/contest/a.ts''
   \<and> \<not> glob ex_contest_workspace excludePattern ''src/contest/a.ts''
   \<and> foundFiles ex_contest_workspace (ex_settings 0) = [''src/contest/a.ts'', ''src/core.ts'']
   \<and> filesToAnalyze asciiPlatform ex_contest_workspace (ex_settings 0) = [''src/core.ts'']
   \<and> map fa_file (files (analyzeProject asciiPlatform ex_analyzer (\<lambda>s. None)
          ex_contest_workspace (ex_settings 0) ''/repo'')) = [''src/core.ts'']"
  by code_simp

text \<open>
  Claim C6, amended. With limit 0 the files to analyse are all the files of the workspace
  that match the include pattern, do not match the exclusion pattern and are not removed by
  the second filter, each once (in priority order). With a limit \<open>N > 0\<close> at most
  \<open>3N\<close> files are found before scoring, and the files to analyse are the first \<open>N\<close>
  of the scored list, so at most \<open>N\<close>. In both cases no file to analyse matches the
  exclusion pattern or the second filter, and the analysed project holds exactly those of
  them whose document could be opened, in the same order.
\<close>

theorem C6_discovery_amended:
  "(maxFilesToAnalyze s = 0 \<longrightarrow>
      mset (filesToAnalyze pf ws s)
        = mset (filter (\<lambda>p. glob ws (includePattern s) p \<and> \<not> glob ws excludePattern p
                           \<and> \<not> slippedThrough pf p) (listing ws)))
   \<and> (0 < maxFilesToAnalyze s \<longrightarrow>
        length (foundFiles ws s) \<le> 3 * maxFilesToAnalyze s
        \<and> filesToAnalyze pf ws s = take (maxFilesToAnalyze s) (prioritizeFiles pf (cleanedFiles pf ws s))
        \<and> length (filesToAnalyze pf ws s) \<le> maxFilesToAnalyze s)
   \<and> (\<forall>p \<in> set (filesToAnalyze pf ws s).
        p \<in> set (listing ws) \<and> glob ws (includePattern s) p
        \<and> \<not> glob ws excludePattern p \<and> \<not> slippedThrough pf p)
   \<and> map fa_file (files (analyzeProject pf a fromMatch ws s workspaceRoot))
        = filter (\<lambda>p. openTextDocument ws p \<noteq> None) (filesToAnalyze pf ws s)"
proof -
  have unlimited: "maxFilesToAnalyze s = 0 \<longrightarrow>
      mset (filesToAnalyze pf ws s)
        = mset (filter (\<lambda>p. glob ws (includePattern s) p \<and> \<not> glob ws excludePattern p
                           \<and> \<not> slippedThrough pf p) (listing ws))"
  proof
    assume z: "maxFilesToAnalyze s = 0"
    have "mset (filesToAnalyze pf ws s) = mset (cleanedFiles pf ws s)"
      using z by (simp add: filesToAnalyze_def mset_prioritizeFiles)
    also have "cleanedFiles pf ws s
        = filter (\<lambda>p. glob ws (includePattern s) p \<and> \<not> glob ws excludePattern p
                           \<and> \<not> slippedThrough pf p) (listing ws)"
      by (simp add: cleanedFiles_def foundFiles_unlimited [OF z] conj_commute conj_left_commute)
    finally show "mset (filesToAnalyze pf ws s)
        = mset (filter (\<lambda>p. glob ws (includePattern s) p \<and> \<not> glob ws excludePattern p
                           \<and> \<not> slippedThrough pf p) (listing ws))" .
  qed
  have limited: "0 < maxFilesToAnalyze s \<longrightarrow>
        length (foundFiles ws s) \<le> 3 * maxFilesToAnalyze s
        \<and> filesToAnalyze pf ws s = take (maxFilesToAnalyze s) (prioritizeFiles pf (cleanedFiles pf ws s))
        \<and> length (filesToAnalyze pf ws s) \<le> maxFilesToAnalyze s"
    by (simp add: foundFiles_limit filesToAnalyze_def slice_def)
  have clean: "\<forall>p \<in> set (filesToAnalyze pf ws s).
        p \<in> set (listing ws) \<and> glob ws (includePattern s) p
        \<and> \<not> glob ws excludePattern p \<and> \<not> slippedThrough pf p"
  proof
    fix p
    assume "p \<in> set (filesToAnalyze pf ws s)"
    with filesToAnalyze_subset have c: "p \<in> set (cleanedFiles pf ws s)"
      by blast
    then have f: "p \<in> set (foundFiles ws s)" and n: "\<not> slippedThrough pf p"
      by (simp_all add: cleanedFiles_def)
    from foundFiles_matching [OF f] n
    show "p \<in> set (listing ws) \<and> glob ws (includePattern s) p
        \<and> \<not> glob ws excludePattern p \<and> \<not> slippedThrough pf p"
      by simp
  qed
  have analysed: "map fa_file (files (analyzeProject pf a fromMatch ws s workspaceRoot))
        = filter (\<lambda>p. openTextDocument ws p \<noteq> None) (filesToAnalyze pf ws s)"
    by (simp add: analyzeProject_def Let_def analyzeLoop_files)
  show ?thesis
    apply (intro conjI)
       apply (rule unlimited)
      apply (rule limited)
     apply (rule clean)
    apply (rule analysed)
    done
qed

theorem C6_discovery_amended_witness:
  "maxFilesToAnalyze (ex_settings 0) = 0
   \<and> mset (filesToAnalyze asciiPlatform ex_workspace (ex_settings 0))
       = mset [''lib/deep/util.ts'', ''src/index.ts'', ''src/a.ts'']
   \<and> 0 < maxFilesToAnalyze (ex_settings 1)
   \<and> length (foundFiles ex_workspace (ex_settings 1)) \<le> 3
   \<and> filesToAnalyze asciiPlatform ex_workspace (ex_settings 1) = [''src/index.ts'']
   \<and> map fa_file (files (analyzeProject asciiPlatform ex_analyzer (\<lambda>s. None) ex_workspace (ex_settings 0) ''/repo''))
       = [''src/index.ts'', ''lib/deep/util.ts'']"
proof -
  have z: "maxFilesToAnalyze (ex_settings 0) = 0" and o: "maxFilesToAnalyze (ex_settings 1) = 1"
    by (simp_all add: ex_settings_def)
  have l: "filter (\<lambda>p. glob ex_workspace (includePattern (ex_settings 0)) p
                        \<and> \<not> glob ex_workspace excludePattern p \<and> \<not> slippedThrough asciiPlatform p)
             (listing ex_workspace) = [''lib/deep/util.ts'', ''src/index.ts'', ''src/a.ts'']"
    by code_simp
  have "take 1 (prioritizeFiles asciiPlatform (cleanedFiles asciiPlatform ex_workspace (ex_settings 1))) = [''src/index.ts'']"
    by code_simp
  then have t: "take (Suc 0) (prioritizeFiles asciiPlatform (cleanedFiles asciiPlatform ex_workspace (ex_settings (Suc 0))))
      = [''src/index.ts'']"
    by simp
  have f: "filesToAnalyze asciiPlatform ex_workspace (ex_settings 0) = [''src/index.ts'', ''src/a.ts'', ''lib/deep/util.ts'']"
    by code_simp
  have d: "filter (\<lambda>p. openTextDocument ex_workspace p \<noteq> None)
             [''src/index.ts'', ''src/a.ts'', ''lib/deep/util.ts''] = [''src/index.ts'', ''lib/deep/util.ts'']"
    by (simp add: ex_workspace_def)
  note c0 = C6_discovery_amended [of "ex_settings 0" asciiPlatform ex_workspace ex_analyzer "\<lambda>s. None" "''/repo''"]
  note c1 = C6_discovery_amended [of "ex_settings 1" asciiPlatform ex_workspace ex_analyzer "\<lambda>s. None" "''/repo''"]
  from c0 z have "mset (filesToAnalyze asciiPlatform ex_workspace (ex_settings 0))
       = mset (filter (\<lambda>p. glob ex_workspace (includePattern (ex_settings 0)) p
                        \<and> \<not> glob ex_workspace excludePattern p \<and> \<not> slippedThrough asciiPlatform p)
             (listing ex_workspace))"
    by blast
  then have a: "mset (filesToAnalyze asciiPlatform ex_workspace (ex_settings 0))
       = mset [''lib/deep/util.ts'', ''src/index.ts'', ''src/a.ts'']"
    unfolding l .
  from c1 o have b: "length (foundFiles ex_workspace (ex_settings 1)) \<le> 3"
    and c: "filesToAnalyze asciiPlatform ex_workspace (ex_settings 1) = [''src/index.ts'']"
    by (simp_all add: t)
  from c0 have "map fa_file (files (analyzeProject asciiPlatform ex_analyzer (\<lambda>s. None) ex_workspace (ex_settings 0) ''/repo''))
       = filter (\<lambda>p. openTextDocument ex_workspace p \<noteq> None) (filesToAnalyze asciiPlatform ex_workspace (ex_settings 0))"
    by blast
  then have e: "map fa_file (files (analyzeProject asciiPlatform ex_analyzer (\<lambda>s. None) ex_workspace (ex_settings 0) ''/repo''))
       = [''src/index.ts'', ''lib/deep/util.ts'']"
    unfolding f d .
  from z o a b c e show ?thesis by simp
qed

end
